theory Spec2Isabelle
  imports Complex_Main "HOL-Library.Stream"
begin

section \<open>Python values\<close>

text \<open>
  Python integers are unbounded and are modelled by \<open>int\<close>; \<open>//\<close> and \<open>%\<close> are floor
  division and its remainder, which is what \<open>div\<close> and \<open>mod\<close> are on \<open>int\<close>.
  Python floats are modelled by exact reals: every float constant of the program is a
  short decimal literal, and the model computes with its decimal value, without rounding.
  Exceptions are values of a sum type.
\<close>

datatype py_error =
  ZeroDivisionError | IndexError | KeyError string | TypeError | AttributeError | OverflowError

text \<open>\<open>int(x)\<close> on a float truncates toward zero.\<close>

definition py_int :: "real \<Rightarrow> int" where
  "py_int x = (if 0 \<le> x then \<lfloor>x\<rfloor> else \<lceil>x\<rceil>)"

text \<open>
  An int that meets a float in a product is converted to a float first, and the conversion
  raises \<open>OverflowError\<close> when the int, rounded to a double, lies beyond the largest
  double \<open>2^1024 - 2^971\<close>, that is from \<open>2^1024 - 2^970\<close> on. Below that bound the model
  takes the exact value of the int.
\<close>

definition float_of_int :: "int \<Rightarrow> py_error + real" where
  "float_of_int n =
     (if 2 ^ 1024 - 2 ^ 970 \<le> \<bar>n\<bar> then Inl OverflowError else Inr (real_of_int n))"

text \<open>\<open>str(n)\<close> on an integer, as the f-strings of the program use it.\<close>

fun str_nat :: "nat \<Rightarrow> string" where
  "str_nat n =
     (if n < 10 then [''0123456789'' ! n]
      else str_nat (n div 10) @ [''0123456789'' ! (n mod 10)])"

declare str_nat.simps [simp del]

definition str_int :: "int \<Rightarrow> string" where
  "str_int i = (if i < 0 then CHR ''-'' # str_nat (nat (- i)) else str_nat (nat i))"

text \<open>
  \<open>random.choice(seq)\<close> raises \<open>IndexError\<close> on an empty sequence and otherwise returns the
  element at an index drawn from the generator. The generator is a stream of raw draws:
  a call consumes the head and reduces it to the range of indices.
\<close>

type_synonym rng = "nat stream"

definition random_choice :: "rng \<Rightarrow> 'a list \<Rightarrow> py_error + ('a \<times> rng)" where
  "random_choice g xs =
     (if xs = [] then Inl IndexError
      else Inr (xs ! (shd g mod length xs), stl g))"


text \<open>
  A JSON value, as a JSON column or a \<open>dict\<close> field of a schema holds it, and the three
  operations the completion flow applies to the values of a dictionary it has not built
  itself: \<open>len(v)\<close>, \<open>n < v\<close> for an int \<open>n\<close>, and \<open>v.append(x)\<close>.
\<close>

datatype json =
  JNull | JBool bool | JInt int | JFloat real | JStr string
  | JList "json list" | JDict "(string \<times> json) list"

type_synonym json_dict = "(string \<times> json) list"

definition py_len :: "json \<Rightarrow> py_error + int" where
  "py_len v =
     (case v of
        JList xs \<Rightarrow> Inr (int (length xs))
      | JStr s \<Rightarrow> Inr (int (length s))
      | JDict d \<Rightarrow> Inr (int (length d))
      | _ \<Rightarrow> Inl TypeError)"

definition py_int_less :: "int \<Rightarrow> json \<Rightarrow> py_error + bool" where
  "py_int_less n v =
     (case v of
        JInt m \<Rightarrow> Inr (n < m)
      | JBool b \<Rightarrow> Inr (n < (if b then 1 else 0))
      | JFloat x \<Rightarrow> Inr (real_of_int n < x)
      | _ \<Rightarrow> Inl TypeError)"

definition py_append :: "json \<Rightarrow> json \<Rightarrow> py_error + json" where
  "py_append v x =
     (case v of
        JList xs \<Rightarrow> Inr (JList (xs @ [x]))
      | _ \<Rightarrow> Inl AttributeError)"

text \<open>\<open>d[k] = v\<close> on a dictionary kept as an association list.\<close>

fun dict_set :: "('k \<times> 'v) list \<Rightarrow> 'k \<Rightarrow> 'v \<Rightarrow> ('k \<times> 'v) list" where
  "dict_set [] k v = [(k, v)]"
| "dict_set ((k', v') # d) k v =
     (if k' = k then (k, v) # d else (k', v') # dict_set d k v)"


section \<open>Schemas of \<open>app/schemas/progression.py\<close>\<close>

text \<open>
  Several classes of the program have fields of the same name (\<open>chapter\<close>, \<open>stage\<close>,
  \<open>gold\<close>, \<open>speed\<close>, ...). A record field is a constant, so each class prefixes the
  fields it shares: \<open>t_\<close> for a monster template, \<open>log_\<close> for \<open>BattleLog\<close>,
  \<open>req_\<close> for \<open>StageCompleteRequest\<close>, \<open>session_\<close> for \<open>BattleSession\<close>, \<open>char_\<close> for
  \<open>Character\<close>, \<open>resp_\<close> for the response classes.
\<close>

record MobConfig =
  mob_id :: string
  mob_name :: string
  mob_type :: string
  health :: int
  damage :: int
  defense :: int
  magic_resistance :: int
  speed :: real
  attack_speed :: real
  critical_chance :: real
  critical_multiplier :: real
  dodge_chance :: real
  attack_range :: real
  behavior_type :: string
  aggro_range :: real
  color :: "real list"
  size_scale :: real
  xp_reward :: int
  gold_reward :: int
  drop_chance :: real
  special_abilities :: "string list"

text \<open>
  An item of a reward is a dictionary, as \<open>RewardsCalculator.roll_item_drop\<close> builds it.
\<close>

record StageRewards =
  gold :: int
  gems :: int
  xp :: int
  items :: "json list"

record MobKillLog =
  kill_name :: string
  kill_level :: int
  kill_max_health :: int
  kill_timestamp :: int

record BattleStats =
  total_damage_dealt :: int
  total_damage_received :: int
  mobs_killed :: int
  skills_used :: int
  potions_used :: int
  duration_ms :: int

record BattleLog =
  log_version :: int
  battle_start_time :: int
  battle_end_time :: int
  log_chapter :: int
  log_stage :: int
  player_level :: int
  player_power :: int
  player_class :: int
  stats :: BattleStats
  mob_kills :: "MobKillLog list"
  checksum :: "string option"

record StageCompleteRequest =
  req_session_token :: string
  req_chapter :: int
  req_stage :: int
  battle_log :: BattleLog

record ProgressionUpdate =
  resp_highest_chapter :: int
  resp_highest_stage :: int
  resp_completed_stages :: "string list"

record RewardsResponse =
  resp_gold :: int
  resp_gems :: int
  resp_xp :: int
  resp_items :: "json list"

record StageCompleteResponse =
  success :: bool
  already_completed :: bool
  resp_error :: "string option"
  resp_rewards :: "RewardsResponse option"
  resp_progression :: "ProgressionUpdate option"
  level_up :: bool
  resp_new_level :: "int option"


section \<open>\<open>RewardsCalculator\<close>: experience and levels\<close>

definition xp_for_level :: "int \<Rightarrow> int" where
  "xp_for_level level = 100 * level * level"

text \<open>
  The \<open>while\<close> loop of \<open>calculate_level_from_xp\<close>, with the loop variable as argument.
  A run that never leaves the loop is the value \<open>None\<close>.
\<close>

partial_function (option) level_loop :: "int \<Rightarrow> int \<Rightarrow> int option" where
  "level_loop total_xp level =
     (if xp_for_level (level + 1) \<le> total_xp
      then level_loop total_xp (level + 1)
      else Some level)"

definition calculate_level_from_xp :: "int \<Rightarrow> int option" where
  "calculate_level_from_xp total_xp = level_loop total_xp 1"

definition apply_xp :: "int \<Rightarrow> int \<Rightarrow> int \<Rightarrow> (int \<times> int \<times> bool) option" where
  "apply_xp current_xp current_level xp_gained =
     (let new_xp = current_xp + xp_gained in
      case calculate_level_from_xp new_xp of
        None \<Rightarrow> None
      | Some new_level \<Rightarrow>
          (let did_level_up = new_level > current_level in
           Some (new_xp, new_level, did_level_up)))"


section \<open>\<open>StageGenerator\<close>\<close>

subsection \<open>The class-level tables\<close>

text \<open>
  \<open>MOB_TEMPLATES\<close>, \<open>BOSS_TEMPLATES\<close> and \<open>CHAPTER_THEMES\<close> are attributes of the class: one
  mutable object each, shared by every call. Each template is itself a dictionary object,
  and the tables hold references to them. The model keeps the dictionaries in a heap (a
  list indexed by address) and the tables as ordered association lists from key to
  address, in the order the class body writes them, since \<open>list(d.keys())\<close> reads that
  order.
\<close>

record mob_template =
  t_mob_name :: string
  t_mob_type :: string
  base_health :: int
  base_damage :: int
  base_defense :: int
  t_magic_resistance :: int
  t_speed :: real
  t_attack_speed :: real
  t_critical_chance :: real
  t_critical_multiplier :: real
  t_dodge_chance :: real
  t_attack_range :: real
  t_behavior_type :: string
  t_aggro_range :: real
  t_color :: "real list"
  t_size_scale :: real
  t_special_abilities :: "string list"

type_synonym addr = nat

record class_state =
  heap :: "mob_template list"
  MOB_TEMPLATES :: "(string \<times> addr) list"
  BOSS_TEMPLATES :: "(string \<times> addr) list"
  CHAPTER_THEMES :: "(int \<times> string list) list"

text \<open>\<open>d[k]\<close> raises \<open>KeyError\<close> on a missing key; \<open>d.get(k, default)\<close> does not.\<close>

definition dict_item :: "(string \<times> 'v) list \<Rightarrow> string \<Rightarrow> py_error + 'v" where
  "dict_item d k = (case map_of d k of None \<Rightarrow> Inl (KeyError k) | Some v \<Rightarrow> Inr v)"

definition dict_get :: "('k \<times> 'v) list \<Rightarrow> 'k \<Rightarrow> 'v \<Rightarrow> 'v" where
  "dict_get d k dflt = (case map_of d k of None \<Rightarrow> dflt | Some v \<Rightarrow> v)"

definition dict_keys :: "('k \<times> 'v) list \<Rightarrow> 'k list" where
  "dict_keys d = map fst d"

text \<open>
  \<open>d.copy()\<close> allocates a new dictionary with the same entries and returns its address;
  \<open>d[key] = v\<close> writes into the object at the given address and into no other.
\<close>

definition dict_copy :: "class_state \<Rightarrow> addr \<Rightarrow> addr \<times> class_state" where
  "dict_copy cs a = (length (heap cs), cs\<lparr>heap := heap cs @ [heap cs ! a]\<rparr>)"

definition set_base_health :: "class_state \<Rightarrow> addr \<Rightarrow> int \<Rightarrow> class_state" where
  "set_base_health cs a v = cs\<lparr>heap := (heap cs)[a := (heap cs ! a)\<lparr>base_health := v\<rparr>]\<rparr>"

definition set_base_damage :: "class_state \<Rightarrow> addr \<Rightarrow> int \<Rightarrow> class_state" where
  "set_base_damage cs a v = cs\<lparr>heap := (heap cs)[a := (heap cs ! a)\<lparr>base_damage := v\<rparr>]\<rparr>"

text \<open>
  A table refers to allocated objects only: Python has no dangling reference.
\<close>

definition refs_allocated :: "class_state \<Rightarrow> bool" where
  "refs_allocated cs \<longleftrightarrow>
     list_all (\<lambda>(k, a). a < length (heap cs)) (MOB_TEMPLATES cs) \<and>
     list_all (\<lambda>(k, a). a < length (heap cs)) (BOSS_TEMPLATES cs)"

text \<open>What a reader of the tables sees: each key with the dictionary it refers to.\<close>

definition table_contents :: "class_state \<Rightarrow> (string \<times> addr) list \<Rightarrow> (string \<times> mob_template) list" where
  "table_contents cs table = map (\<lambda>(k, a). (k, heap cs ! a)) table"

text \<open>A boss template with the two entries the mini-boss branch overwrites.\<close>

definition miniboss_template :: "mob_template \<Rightarrow> mob_template" where
  "miniboss_template t =
     t\<lparr>base_health := py_int (real_of_int (base_health t) * 0.6),
       base_damage := py_int (real_of_int (base_damage t) * 0.6)\<rparr>"

definition orc_warrior :: mob_template where
  "orc_warrior =
     \<lparr>t_mob_name = ''Orc Warrior'', t_mob_type = ''melee'',
      base_health = 100, base_damage = 15, base_defense = 8, t_magic_resistance = 3,
      t_speed = 90.0, t_attack_speed = 1.2, t_critical_chance = 0.08,
      t_critical_multiplier = 1.5, t_dodge_chance = 0.05, t_attack_range = 50.0,
      t_behavior_type = ''aggressive'', t_aggro_range = 150.0, t_color = [0.4, 0.6, 0.3],
      t_size_scale = 1.0, t_special_abilities = [''charge'']\<rparr>"

definition goblin_archer :: mob_template where
  "goblin_archer =
     \<lparr>t_mob_name = ''Goblin Archer'', t_mob_type = ''ranged'',
      base_health = 60, base_damage = 20, base_defense = 4, t_magic_resistance = 2,
      t_speed = 110.0, t_attack_speed = 1.0, t_critical_chance = 0.12,
      t_critical_multiplier = 1.8, t_dodge_chance = 0.10, t_attack_range = 200.0,
      t_behavior_type = ''defensive'', t_aggro_range = 200.0, t_color = [0.3, 0.5, 0.2],
      t_size_scale = 0.7, t_special_abilities = [''rapid_shot'']\<rparr>"

definition dark_mage :: mob_template where
  "dark_mage =
     \<lparr>t_mob_name = ''Dark Mage'', t_mob_type = ''magic'',
      base_health = 50, base_damage = 30, base_defense = 3, t_magic_resistance = 15,
      t_speed = 70.0, t_attack_speed = 0.8, t_critical_chance = 0.10,
      t_critical_multiplier = 2.0, t_dodge_chance = 0.03, t_attack_range = 250.0,
      t_behavior_type = ''defensive'', t_aggro_range = 180.0, t_color = [0.3, 0.1, 0.4],
      t_size_scale = 0.9, t_special_abilities = [''fireball'', ''teleport'']\<rparr>"

definition skeleton :: mob_template where
  "skeleton =
     \<lparr>t_mob_name = ''Skeleton'', t_mob_type = ''melee'',
      base_health = 70, base_damage = 12, base_defense = 6, t_magic_resistance = 10,
      t_speed = 85.0, t_attack_speed = 1.4, t_critical_chance = 0.05,
      t_critical_multiplier = 1.3, t_dodge_chance = 0.08, t_attack_range = 45.0,
      t_behavior_type = ''patrol'', t_aggro_range = 120.0, t_color = [0.9, 0.9, 0.85],
      t_size_scale = 0.95, t_special_abilities = []\<rparr>"

definition troll :: mob_template where
  "troll =
     \<lparr>t_mob_name = ''Troll'', t_mob_type = ''melee'',
      base_health = 200, base_damage = 25, base_defense = 15, t_magic_resistance = 5,
      t_speed = 60.0, t_attack_speed = 0.7, t_critical_chance = 0.05,
      t_critical_multiplier = 1.4, t_dodge_chance = 0.02, t_attack_range = 60.0,
      t_behavior_type = ''aggressive'', t_aggro_range = 100.0, t_color = [0.5, 0.7, 0.5],
      t_size_scale = 1.5, t_special_abilities = [''regenerate'', ''ground_slam'']\<rparr>"

definition orc_warlord :: mob_template where
  "orc_warlord =
     \<lparr>t_mob_name = ''Orc Warlord'', t_mob_type = ''melee'',
      base_health = 500, base_damage = 40, base_defense = 20, t_magic_resistance = 10,
      t_speed = 80.0, t_attack_speed = 1.0, t_critical_chance = 0.15,
      t_critical_multiplier = 2.0, t_dodge_chance = 0.08, t_attack_range = 70.0,
      t_behavior_type = ''aggressive'', t_aggro_range = 200.0, t_color = [0.6, 0.2, 0.2],
      t_size_scale = 1.8, t_special_abilities = [''war_cry'', ''cleave'', ''enrage'']\<rparr>"

definition lich_king :: mob_template where
  "lich_king =
     \<lparr>t_mob_name = ''Lich King'', t_mob_type = ''magic'',
      base_health = 400, base_damage = 60, base_defense = 12, t_magic_resistance = 30,
      t_speed = 50.0, t_attack_speed = 0.6, t_critical_chance = 0.20,
      t_critical_multiplier = 2.5, t_dodge_chance = 0.05, t_attack_range = 300.0,
      t_behavior_type = ''defensive'', t_aggro_range = 250.0, t_color = [0.2, 0.1, 0.3],
      t_size_scale = 1.6, t_special_abilities = [''death_bolt'', ''summon_skeletons'', ''soul_drain'']\<rparr>"

definition dragon :: mob_template where
  "dragon =
     \<lparr>t_mob_name = ''Ancient Dragon'', t_mob_type = ''magic'',
      base_health = 1000, base_damage = 80, base_defense = 25, t_magic_resistance = 25,
      t_speed = 100.0, t_attack_speed = 0.5, t_critical_chance = 0.15,
      t_critical_multiplier = 2.0, t_dodge_chance = 0.10, t_attack_range = 350.0,
      t_behavior_type = ''aggressive'', t_aggro_range = 300.0, t_color = [0.8, 0.3, 0.1],
      t_size_scale = 3.0, t_special_abilities = [''fire_breath'', ''tail_swipe'', ''fly'']\<rparr>"

text \<open>The state of the class when the module has been loaded.\<close>

definition initial_class_state :: class_state where
  "initial_class_state =
     \<lparr>heap = [orc_warrior, goblin_archer, dark_mage, skeleton, troll,
              orc_warlord, lich_king, dragon],
      MOB_TEMPLATES = [(''orc_warrior'', 0), (''goblin_archer'', 1), (''dark_mage'', 2),
                       (''skeleton'', 3), (''troll'', 4)],
      BOSS_TEMPLATES = [(''orc_warlord'', 5), (''lich_king'', 6), (''dragon'', 7)],
      CHAPTER_THEMES =
        [(1, [''orc_warrior'', ''goblin_archer'']),
         (2, [''orc_warrior'', ''goblin_archer'', ''skeleton'']),
         (3, [''skeleton'', ''dark_mage'']),
         (4, [''skeleton'', ''dark_mage'', ''troll'']),
         (5, [''dark_mage'', ''troll''])]\<rparr>"

subsection \<open>Difficulty and monster count\<close>

definition get_difficulty_multiplier :: "int \<Rightarrow> int \<Rightarrow> real" where
  "get_difficulty_multiplier chapter stage =
     (let base = 1.0 + real_of_int (chapter - 1) * 0.5;
          stage_bonus = real_of_int (stage - 1) * 0.1;
          stage_bonus = (if stage = 10 then stage_bonus + 0.5
                         else if stage = 5 then stage_bonus + 0.25
                         else stage_bonus)
      in base + stage_bonus)"

definition get_mob_count :: "int \<Rightarrow> int \<Rightarrow> int" where
  "get_mob_count chapter stage =
     (let base_count = 3 + chapter div 2 in
      if stage = 10 then 1
      else if stage = 5 then 2
      else min (base_count + stage div 3) 10)"

subsection \<open>Monsters\<close>

definition generate_mob :: "string \<Rightarrow> mob_template \<Rightarrow> real \<Rightarrow> int \<Rightarrow> MobConfig" where
  "generate_mob mid template difficulty chapter =
     (let base_xp = 10 + chapter * 5;
          base_gold = 5 + chapter * 3
      in \<lparr>mob_id = mid,
          mob_name = t_mob_name template,
          mob_type = t_mob_type template,
          health = py_int (real_of_int (base_health template) * difficulty),
          damage = py_int (real_of_int (base_damage template) * difficulty),
          defense = py_int (real_of_int (base_defense template) * difficulty),
          magic_resistance = py_int (real_of_int (t_magic_resistance template) * difficulty),
          speed = t_speed template,
          attack_speed = t_attack_speed template,
          critical_chance = t_critical_chance template,
          critical_multiplier = t_critical_multiplier template,
          dodge_chance = t_dodge_chance template,
          attack_range = t_attack_range template,
          behavior_type = t_behavior_type template,
          aggro_range = t_aggro_range template,
          color = t_color template,
          size_scale = t_size_scale template,
          xp_reward = py_int (real_of_int base_xp * difficulty),
          gold_reward = py_int (real_of_int base_gold * difficulty),
          drop_chance = 0.05 + real_of_int chapter * 0.01,
          special_abilities = t_special_abilities template\<rparr>)"

text \<open>
  The loop \<open>for _ in range(mob_count)\<close> of a regular stage, by recursion on the number of
  rounds left. It reads the class state and leaves it alone.
\<close>

fun regular_mobs ::
  "class_state \<Rightarrow> string list \<Rightarrow> real \<Rightarrow> int \<Rightarrow> nat \<Rightarrow> rng \<Rightarrow> MobConfig list
     \<Rightarrow> (py_error + MobConfig list) \<times> rng" where
  "regular_mobs cs theme difficulty chapter 0 g mobs = (Inr mobs, g)"
| "regular_mobs cs theme difficulty chapter (Suc n) g mobs =
     (case random_choice g theme of
        Inl e \<Rightarrow> (Inl e, g)
      | Inr (mid, g') \<Rightarrow>
          (case dict_item (MOB_TEMPLATES cs) mid of
             Inl e \<Rightarrow> (Inl e, g')
           | Inr template \<Rightarrow>
               regular_mobs cs theme difficulty chapter n g'
                 (mobs @ [generate_mob mid (heap cs ! template) difficulty chapter])))"

text \<open>
  \<open>generate_stage_mobs\<close> returns the monsters or the exception raised, together with the
  class state and the generator it leaves behind.
\<close>

definition generate_stage_mobs ::
  "class_state \<Rightarrow> rng \<Rightarrow> int \<Rightarrow> int \<Rightarrow> (py_error + MobConfig list) \<times> class_state \<times> rng" where
  "generate_stage_mobs cs g chapter stage =
     (let difficulty = get_difficulty_multiplier chapter stage;
          mob_count = get_mob_count chapter stage
      in
      if stage = 10 then
        (let boss_choices = dict_keys (BOSS_TEMPLATES cs) in
         if length boss_choices = 0 then (Inl ZeroDivisionError, cs, g)
         else
           (let boss_id = boss_choices ! nat ((chapter - 1) mod int (length boss_choices)) in
            case dict_item (BOSS_TEMPLATES cs) boss_id of
              Inl e \<Rightarrow> (Inl e, cs, g)
            | Inr boss_template \<Rightarrow>
                (Inr [generate_mob boss_id (heap cs ! boss_template) difficulty chapter],
                 cs, g)))
      else if stage = 5 then
        (let boss_choices = dict_keys (BOSS_TEMPLATES cs) in
         if length boss_choices = 0 then (Inl ZeroDivisionError, cs, g)
         else
           (let boss_id = boss_choices ! nat ((chapter - 1) mod int (length boss_choices)) in
            case dict_item (BOSS_TEMPLATES cs) boss_id of
              Inl e \<Rightarrow> (Inl e, cs, g)
            | Inr original \<Rightarrow>
                (let (boss_template, cs1) = dict_copy cs original;
                     cs2 = set_base_health cs1 boss_template
                             (py_int (real_of_int (base_health (heap cs1 ! boss_template)) * 0.6));
                     cs3 = set_base_damage cs2 boss_template
                             (py_int (real_of_int (base_damage (heap cs2 ! boss_template)) * 0.6));
                     mobs = [generate_mob (boss_id @ ''_mini'') (heap cs3 ! boss_template)
                               difficulty chapter];
                     theme = dict_get (CHAPTER_THEMES cs3) chapter (dict_keys (MOB_TEMPLATES cs3))
                 in
                 case random_choice g theme of
                   Inl e \<Rightarrow> (Inl e, cs3, g)
                 | Inr (mid, g') \<Rightarrow>
                     (case dict_item (MOB_TEMPLATES cs3) mid of
                        Inl e \<Rightarrow> (Inl e, cs3, g')
                      | Inr template \<Rightarrow>
                          (Inr (mobs @ [generate_mob mid (heap cs3 ! template) difficulty chapter]),
                           cs3, g')))))
      else
        (let theme = dict_get (CHAPTER_THEMES cs) chapter (dict_keys (MOB_TEMPLATES cs)) in
         case regular_mobs cs theme difficulty chapter (nat mob_count) g [] of
           (r, g') \<Rightarrow> (r, cs, g')))"

subsection \<open>Rewards\<close>

definition generate_stage_rewards :: "int \<Rightarrow> int \<Rightarrow> MobConfig list \<Rightarrow> StageRewards" where
  "generate_stage_rewards chapter stage mobs =
     (let difficulty = get_difficulty_multiplier chapter stage;
          base_gold = 100 * chapter + 10 * stage;
          base_gems = chapter + (stage div 5);
          base_xp = 50 * chapter + 5 * stage;
          mob_gold = sum_list (map gold_reward mobs);
          mob_xp = sum_list (map xp_reward mobs);
          multiplier = (if stage = 10 then 3.0 else if stage = 5 then 2.0 else (1.0 :: real))
      in \<lparr>gold = py_int (real_of_int (base_gold + mob_gold) * multiplier),
          gems = py_int (real_of_int base_gems * multiplier),
          xp = py_int (real_of_int (base_xp + mob_xp) * multiplier),
          items = []\<rparr>)"


section \<open>\<open>BattleValidator\<close>\<close>

text \<open>
  A \<open>datetime\<close> is a number of microseconds since the epoch. \<open>dt.timestamp()\<close> is that
  instant in seconds, and the validator reads \<open>int(dt.timestamp() * 1000)\<close>.
\<close>

type_synonym datetime = int

definition timestamp :: "datetime \<Rightarrow> real" where
  "timestamp dt = real_of_int dt / 1000000"

definition MIN_BATTLE_DURATION_MS :: int where
  "MIN_BATTLE_DURATION_MS = 5000"

definition MAX_BATTLE_DURATION_MS :: int where
  "MAX_BATTLE_DURATION_MS = 600000"

definition MIN_DAMAGE_PER_POWER :: real where
  "MIN_DAMAGE_PER_POWER = 0.5"

definition MAX_DAMAGE_PER_POWER :: int where
  "MAX_DAMAGE_PER_POWER = 50"

text \<open>
  The validator returns its pair, or raises: the two products of an int with a float
  (\<open>player_power * MIN_DAMAGE_PER_POWER\<close>, whose result is never read, and
  \<open>total_mob_health * 0.5\<close>) convert the int first.
\<close>

definition validate_battle_log ::
  "BattleLog \<Rightarrow> int \<Rightarrow> int \<Rightarrow> MobConfig list \<Rightarrow> datetime
     \<Rightarrow> py_error + (bool \<times> string option)" where
  "validate_battle_log bl expected_chapter expected_stage expected_mobs session_created_at =
     (if log_chapter bl \<noteq> expected_chapter \<or> log_stage bl \<noteq> expected_stage
      then Inr (False, Some ''Chapter/stage mismatch'')
      else
        (let duration = battle_end_time bl - battle_start_time bl in
         if duration < MIN_BATTLE_DURATION_MS
         then Inr (False, Some (''Battle too short ('' @ str_int duration @ ''ms)''))
         else if duration > MAX_BATTLE_DURATION_MS
         then Inr (False, Some (''Battle too long ('' @ str_int duration @ ''ms)''))
         else
           (let session_ts = py_int (timestamp session_created_at * 1000) in
            if battle_start_time bl < session_ts - 5000
            then Inr (False, Some ''Battle started before session was created'')
            else
              (let expected_mob_count = int (length expected_mobs);
                   actual_kills = mobs_killed (stats bl)
               in
               if actual_kills \<noteq> expected_mob_count
               then Inr (False, Some (''Kill count mismatch: expected ''
                                        @ str_int expected_mob_count
                                        @ '', got '' @ str_int actual_kills))
               else
                 (case float_of_int (player_power bl) of
                    Inl e \<Rightarrow> Inl e
                  | Inr power_as_float \<Rightarrow>
                      (let min_expected_damage = power_as_float * MIN_DAMAGE_PER_POWER;
                           max_expected_damage = player_power bl * MAX_DAMAGE_PER_POWER;
                           total_mob_health = sum_list (map health expected_mobs)
                       in
                       case float_of_int total_mob_health of
                         Inl e \<Rightarrow> Inl e
                       | Inr health_as_float \<Rightarrow>
                           if real_of_int (total_damage_dealt (stats bl)) < health_as_float * 0.5
                           then Inr (False, Some ''Damage dealt too low for mob health'')
                           else if total_damage_dealt (stats bl) > max_expected_damage * 100
                           then Inr (False, Some ''Damage dealt suspiciously high'')
                           else
                             (let reported_duration = duration_ms (stats bl) in
                              if \<bar>reported_duration - duration\<bar> > 1000
                              then Inr (False, Some ''Duration mismatch in stats'')
                              else Inr (True, None))))))))"


section \<open>The stored entities\<close>

text \<open>
  \<open>BattleSession\<close> rows are keyed by their token, the primary key. A \<open>Character\<close> row is
  keyed by its id; the columns the completion flow neither reads nor writes (name, class,
  equipment, potions, skills, shop, row timestamps) are left out. The JSON columns are
  dictionaries. \<open>progression\<close> is written by the server only and read with \<open>.get\<close> and
  defaults throughout, so each of its keys may be absent. \<open>inventory\<close> is whatever JSON
  object \<open>save_character\<close> last stored for the client, and the completion flow reads it
  by subscript.
\<close>

record BattleSession =
  session_character_id :: string
  session_chapter :: int
  session_stage :: int
  mob_config :: "MobConfig list"
  session_rewards :: StageRewards
  created_at :: datetime
  expires_at :: datetime
  is_used :: bool
  used_at :: "datetime option"

record chapters_dict =
  highest_chapter :: "int option"
  highest_stage :: "int option"
  completed_stages :: "string list option"

record dungeons_dict =
  unlocked :: "string list"
  daily_attempts :: "(string \<times> int) list"

record progression_dict =
  chapters :: "chapters_dict option"
  dungeons :: "dungeons_dict option"

record Character =
  char_user_id :: string
  char_level :: int
  char_xp :: int
  char_power :: int
  char_gold :: int
  char_gems :: int
  free_stat_points :: int
  char_stats :: "(string \<times> int) list"
  char_inventory :: json_dict
  char_progression :: progression_dict

record db =
  characters :: "string \<rightharpoonup> Character"
  battle_sessions :: "string \<rightharpoonup> BattleSession"

definition is_expired :: "datetime \<Rightarrow> BattleSession \<Rightarrow> bool" where
  "is_expired now s \<longleftrightarrow> now > expires_at s"

definition get_default_inventory :: json_dict where
  "get_default_inventory = [(''items'', JList []), (''max_slots'', JInt 50)]"

definition get_default_progression :: progression_dict where
  "get_default_progression =
     \<lparr>chapters = Some \<lparr>highest_chapter = Some 1, highest_stage = Some 1,
                        completed_stages = Some []\<rparr>,
      dungeons = Some \<lparr>unlocked = [], daily_attempts = []\<rparr>\<rparr>"

text \<open>
  What a commit writes. The ORM session hands out the object it loaded for a JSON column,
  and \<open>inventory\<close> and \<open>progression\<close> are plain \<open>JSON\<close> columns: at the commit the value
  assigned to the attribute is compared with the loaded object, and the column is written
  only if they differ. A dictionary that was changed in place and assigned back is the
  loaded object itself, equal to itself, so its column keeps the stored value. A value of
  type \<open>assigned\<close> is what the endpoint assigns to such an attribute: the loaded object in
  its current state, or a new object.
\<close>

datatype 'a assigned = Loaded_object 'a | New_object 'a

definition current_value :: "'a assigned \<Rightarrow> 'a" where
  "current_value a = (case a of Loaded_object v \<Rightarrow> v | New_object v \<Rightarrow> v)"

text \<open>The same object after a change in place.\<close>

definition changed_in_place :: "'a assigned \<Rightarrow> 'a \<Rightarrow> 'a assigned" where
  "changed_in_place a v = (case a of Loaded_object _ \<Rightarrow> Loaded_object v | New_object _ \<Rightarrow> New_object v)"

definition committed_json :: "'a \<Rightarrow> 'a assigned \<Rightarrow> 'a" where
  "committed_json stored a = (case a of Loaded_object v \<Rightarrow> stored | New_object v \<Rightarrow> v)"


section \<open>The completion endpoint\<close>

datatype exception = HTTPException nat string | Uncaught py_error

datatype outcome = Raised exception | Returned StageCompleteResponse

definition TOTAL_CHAPTERS :: int where
  "TOTAL_CHAPTERS = 20"

definition STAGES_PER_CHAPTER :: int where
  "STAGES_PER_CHAPTER = 10"

definition get_character_for_user :: "db \<Rightarrow> string \<Rightarrow> string \<Rightarrow> exception + Character" where
  "get_character_for_user d character_id user_id =
     (case characters d character_id of
        None \<Rightarrow> Inl (HTTPException 404 ''Character not found'')
      | Some c \<Rightarrow>
          if char_user_id c = user_id then Inr c
          else Inl (HTTPException 404 ''Character not found''))"

text \<open>The query for the session: the row with this token, if it belongs to the character.\<close>

definition select_session :: "db \<Rightarrow> string \<Rightarrow> string \<Rightarrow> BattleSession option" where
  "select_session d token character_id =
     (case battle_sessions d token of
        None \<Rightarrow> None
      | Some s \<Rightarrow> if session_character_id s = character_id then Some s else None)"

text \<open>\<open>calculate_power\<close> of \<open>app/routers/character.py\<close>.\<close>

definition calculate_power :: "Character \<Rightarrow> int" where
  "calculate_power character =
     (let st = char_stats character;
          p = char_level character * 10;
          p = p + dict_get st ''strength'' 0 * 2;
          p = p + dict_get st ''agility'' 0 * 2;
          p = p + dict_get st ''intelligence'' 0 * 2;
          p = p + dict_get st ''vitality'' 0 * 2;
          p = p + dict_get st ''physical_damage'' 0 * 3;
          p = p + dict_get st ''magic_damage'' 0 * 3;
          p = p + dict_get st ''defense'' 0 * 2;
          p = p + dict_get st ''magic_resistance'' 0 * 2
      in max 100 p)"

text \<open>A response with the defaults of \<open>StageCompleteResponse\<close> for the fields not given.\<close>

definition failure_response :: "bool \<Rightarrow> string \<Rightarrow> StageCompleteResponse" where
  "failure_response already msg =
     \<lparr>success = False, already_completed = already, resp_error = Some msg,
      resp_rewards = None, resp_progression = None, level_up = False,
      resp_new_level = None\<rparr>"

text \<open>
  Step 8, the loop over the reward items. Each round evaluates
  \<open>len(inventory["items"]) < inventory["max_slots"]\<close> and, when it holds,
  \<open>inventory["items"].append(item)\<close>, on whatever the dictionary holds: a missing key, a
  value without a length, a bound that does not compare with an int, or a value without
  \<open>append\<close> raises.
\<close>

fun add_items :: "json_dict \<Rightarrow> json list \<Rightarrow> py_error + json_dict" where
  "add_items inventory [] = Inr inventory"
| "add_items inventory (it # its) =
     (case dict_item inventory ''items'' of
        Inl e \<Rightarrow> Inl e
      | Inr held \<Rightarrow>
          (case py_len held of
             Inl e \<Rightarrow> Inl e
           | Inr n \<Rightarrow>
               (case dict_item inventory ''max_slots'' of
                  Inl e \<Rightarrow> Inl e
                | Inr cap \<Rightarrow>
                    (case py_int_less n cap of
                       Inl e \<Rightarrow> Inl e
                     | Inr free_slot \<Rightarrow>
                         if free_slot
                         then (case py_append held it of
                                 Inl e \<Rightarrow> Inl e
                               | Inr longer \<Rightarrow> add_items (dict_set inventory ''items'' longer) its)
                         else add_items inventory its))))"

text \<open>
  Step 9, on the \<open>chapters\<close> dictionary: the stage key is appended when absent, then the
  highest chapter and stage move.
\<close>

definition stage_key_of :: "int \<Rightarrow> int \<Rightarrow> string" where
  "stage_key_of chapter stage = str_int chapter @ ''-'' @ str_int stage"

definition opt_get :: "'a option \<Rightarrow> 'a \<Rightarrow> 'a" where
  "opt_get v dflt = (case v of None \<Rightarrow> dflt | Some x \<Rightarrow> x)"

definition update_chapters :: "int \<Rightarrow> int \<Rightarrow> chapters_dict \<Rightarrow> chapters_dict" where
  "update_chapters chapter stage chapters_prog =
     (let stage_key = stage_key_of chapter stage;
          cp = (if stage_key \<notin> set (opt_get (completed_stages chapters_prog) [])
                then chapters_prog\<lparr>completed_stages :=
                       Some (opt_get (completed_stages chapters_prog) [] @ [stage_key])\<rparr>
                else chapters_prog)
      in
      if chapter > opt_get (highest_chapter cp) 1
      then cp\<lparr>highest_chapter := Some chapter, highest_stage := Some stage\<rparr>
      else if chapter = opt_get (highest_chapter cp) 1
      then (if stage \<ge> opt_get (highest_stage cp) 1
            then (if stage = STAGES_PER_CHAPTER
                  then cp\<lparr>highest_chapter := Some (chapter + 1), highest_stage := Some 1\<rparr>
                  else cp\<lparr>highest_stage := Some stage\<rparr>)
            else cp)
      else cp)"

text \<open>
  Step 8: currency, experience and level on the scalar columns, then the inventory.
  \<open>character.inventory or {...}\<close> is the loaded dictionary unless it is empty; the loop
  changes it in place and the result is assigned to the attribute. The function returns
  the character with its scalar columns updated, and what is assigned to \<open>inventory\<close>.
\<close>

definition apply_rewards ::
  "Character \<Rightarrow> StageRewards
     \<Rightarrow> (py_error + (Character \<times> json_dict assigned \<times> int \<times> bool)) option" where
  "apply_rewards character rewards_data =
     (case apply_xp (char_xp character) (char_level character) (xp rewards_data) of
        None \<Rightarrow> None
      | Some (new_xp, lvl, did_level_up) \<Rightarrow>
          (let c1 = character\<lparr>char_gold := char_gold character + gold rewards_data,
                               char_gems := char_gems character + gems rewards_data,
                               char_xp := new_xp\<rparr>;
               c2 = (if did_level_up
                     then c1\<lparr>char_level := lvl, free_stat_points := free_stat_points c1 + 5\<rparr>
                     else c1);
               inventory = (if char_inventory c2 = []
                            then New_object [(''items'', JList []), (''max_slots'', JInt 50)]
                            else Loaded_object (char_inventory c2))
           in
           case add_items (current_value inventory) (items rewards_data) of
             Inl e \<Rightarrow> Some (Inl e)
           | Inr filled \<Rightarrow>
               Some (Inr (c2, changed_in_place inventory filled, lvl, did_level_up))))"

text \<open>
  Step 9 reads the progression with its defaults: \<open>character.progression or {"chapters":
  {"completed_stages": []}}\<close>, then \<open>.get("chapters", {"completed_stages": []})\<close>. It
  stores the updated \<open>chapters\<close> under its key, in place, and assigns the dictionary to
  the attribute. The function returns what is assigned to \<open>progression\<close>, and the
  \<open>chapters\<close> dictionary the response is built from.
\<close>

definition progression_or_default :: "Character \<Rightarrow> progression_dict assigned" where
  "progression_or_default character =
     (if chapters (char_progression character) = None
         \<and> dungeons (char_progression character) = None
      then New_object \<lparr>chapters = Some \<lparr>highest_chapter = None, highest_stage = None,
                                          completed_stages = Some []\<rparr>,
                       dungeons = None\<rparr>
      else Loaded_object (char_progression character))"

definition current_chapters :: "Character \<Rightarrow> chapters_dict" where
  "current_chapters character =
     opt_get (chapters (current_value (progression_or_default character)))
       \<lparr>highest_chapter = None, highest_stage = None, completed_stages = Some []\<rparr>"

definition update_progression ::
  "Character \<Rightarrow> int \<Rightarrow> int \<Rightarrow> progression_dict assigned \<times> chapters_dict" where
  "update_progression character chapter stage =
     (let prog = progression_or_default character;
          chapters_prog = update_chapters chapter stage (current_chapters character)
      in (changed_in_place prog ((current_value prog)\<lparr>chapters := Some chapters_prog\<rparr>),
          chapters_prog))"

text \<open>
  Step 11 builds the response after the commit; its subscripts on the \<open>chapters\<close>
  dictionary raise \<open>KeyError\<close> on a key that is still absent.
\<close>

definition build_response ::
  "StageRewards \<Rightarrow> chapters_dict \<Rightarrow> bool \<Rightarrow> int \<Rightarrow> outcome" where
  "build_response rewards_data chapters_prog did_level_up lvl =
     (case highest_chapter chapters_prog of
        None \<Rightarrow> Raised (Uncaught (KeyError ''highest_chapter''))
      | Some hc \<Rightarrow>
          (case highest_stage chapters_prog of
             None \<Rightarrow> Raised (Uncaught (KeyError ''highest_stage''))
           | Some hs \<Rightarrow>
               (case completed_stages chapters_prog of
                  None \<Rightarrow> Raised (Uncaught (KeyError ''completed_stages''))
                | Some done_keys \<Rightarrow>
                    Returned
                      \<lparr>success = True, already_completed = False, resp_error = None,
                       resp_rewards =
                         Some \<lparr>resp_gold = gold rewards_data,
                               resp_gems = gems rewards_data,
                               resp_xp = xp rewards_data,
                               resp_items = items rewards_data\<rparr>,
                       resp_progression =
                         Some \<lparr>resp_highest_chapter = hc, resp_highest_stage = hs,
                               resp_completed_stages = done_keys\<rparr>,
                       level_up = did_level_up,
                       resp_new_level = (if did_level_up then Some lvl else None)\<rparr>)))"

text \<open>
  Steps 7 to 11, once the battle log has been accepted. The session is marked used and
  the character is rewarded and its progression and power are updated, all on the loaded
  objects; an exception raised on the way leaves the database as it was. Then the commit
  writes the session row and the character row, the two JSON columns as described above,
  and the response is built.
\<close>

definition apply_completion ::
  "db \<Rightarrow> datetime \<Rightarrow> string \<Rightarrow> string \<Rightarrow> Character \<Rightarrow> BattleSession \<Rightarrow> (outcome \<times> db) option" where
  "apply_completion d used_now character_id token character session =
     (let session1 = session\<lparr>is_used := True, used_at := Some used_now\<rparr>;
          rewards_data = session_rewards session1
      in
      case apply_rewards character rewards_data of
        None \<Rightarrow> None
      | Some (Inl e) \<Rightarrow> Some (Raised (Uncaught e), d)
      | Some (Inr (c2, inventory, lvl, did_level_up)) \<Rightarrow>
          (case update_progression c2 (session_chapter session1) (session_stage session1) of
             (prog, chapters_prog) \<Rightarrow>
               (let c3 = c2\<lparr>char_power := calculate_power c2\<rparr>;
                    row = c3\<lparr>char_inventory :=
                                committed_json (char_inventory character) inventory,
                             char_progression :=
                                committed_json (char_progression character) prog\<rparr>;
                    d1 = d\<lparr>characters := (characters d)(character_id \<mapsto> row),
                           battle_sessions := (battle_sessions d)(token \<mapsto> session1)\<rparr>
                in Some (build_response rewards_data chapters_prog did_level_up lvl, d1))))"

text \<open>
  \<open>complete_stage\<close>: the guards in the order of the source, the first that fails
  answers. \<open>now\<close> is the clock read by \<open>is_expired\<close>, \<open>used_now\<close> the later read that
  stamps \<open>used_at\<close>. The suspicion score of the rejection path is only printed and is
  left out.
\<close>

definition complete_stage ::
  "db \<Rightarrow> datetime \<Rightarrow> datetime \<Rightarrow> string \<Rightarrow> string \<Rightarrow> StageCompleteRequest
     \<Rightarrow> (outcome \<times> db) option" where
  "complete_stage d now used_now current_user character_id request =
     (case get_character_for_user d character_id current_user of
        Inl e \<Rightarrow> Some (Raised e, d)
      | Inr character \<Rightarrow>
          (case select_session d (req_session_token request) character_id of
             None \<Rightarrow> Some (Raised (HTTPException 400 ''Invalid session token''), d)
           | Some session \<Rightarrow>
               if is_used session
               then Some (Returned (failure_response True ''Session already used''), d)
               else if is_expired now session
               then Some (Returned (failure_response False ''Session expired''), d)
               else if session_chapter session \<noteq> req_chapter request
                       \<or> session_stage session \<noteq> req_stage request
               then Some (Returned (failure_response False ''Chapter/stage mismatch''), d)
               else
                 (let expected_mobs = mob_config session in
                  case validate_battle_log (battle_log request) (session_chapter session)
                         (session_stage session) expected_mobs (created_at session) of
                    Inl e \<Rightarrow> Some (Raised (Uncaught e), d)
                  | Inr (is_valid, err) \<Rightarrow>
                      if \<not> is_valid
                      then Some (Returned (failure_response False
                                   (''Battle validation failed: '' @ opt_get err ''None'')), d)
                      else apply_completion d used_now character_id
                             (req_session_token request) character session)))"


section \<open>A boss battle, as data\<close>

text \<open>
  A character that has cleared stages 1 to 9 of chapter 1, the session it was issued for
  the boss stage 1-10, and the battle log it sends back. The session holds what the
  generator produced for that stage, and the item of the guaranteed boss drop.
\<close>

definition boss_mobs :: "MobConfig list" where
  "boss_mobs = [generate_mob ''orc_warlord'' orc_warlord (get_difficulty_multiplier 1 10) 1]"

definition boss_drop :: json where
  "boss_drop =
     JDict [(''item_type'', JInt 0), (''id'', JStr ''0b4e6a52-8d0c-4f3e-9a57-2f6f0c1d9e11''),
            (''name'', JStr ''Worn Sword''), (''rarity'', JInt 0), (''slot'', JInt 0),
            (''atk'', JInt 7), (''def'', JInt 0), (''bonus_stats'', JList []),
            (''upgrade_level'', JInt 0), (''refine_level'', JInt 0)]"

definition hero :: Character where
  "hero =
     \<lparr>char_user_id = ''user-1'', char_level = 1, char_xp = 0, char_power = 100,
      char_gold = 100, char_gems = 10, free_stat_points = 0,
      char_stats = [(''strength'', 10), (''agility'', 10), (''intelligence'', 10),
                    (''vitality'', 10), (''luck'', 5), (''max_health'', 100),
                    (''max_mana'', 50), (''physical_damage'', 10), (''magic_damage'', 5),
                    (''defense'', 5), (''magic_resistance'', 5), (''movement_speed'', 100)],
      char_inventory = [(''items'', JList []), (''max_slots'', JInt 50)],
      char_progression =
        \<lparr>chapters = Some \<lparr>highest_chapter = Some 1, highest_stage = Some 9,
                           completed_stages =
                             Some [''1-1'', ''1-2'', ''1-3'', ''1-4'', ''1-5'', ''1-6'',
                                   ''1-7'', ''1-8'', ''1-9'']\<rparr>,
         dungeons = Some \<lparr>unlocked = [], daily_attempts = []\<rparr>\<rparr>\<rparr>"

definition boss_session :: BattleSession where
  "boss_session =
     \<lparr>session_character_id = ''hero'', session_chapter = 1, session_stage = 10,
      mob_config = boss_mobs,
      session_rewards = (generate_stage_rewards 1 10 boss_mobs)\<lparr>items := [boss_drop]\<rparr>,
      created_at = 1700000000000000, expires_at = 1700000600000000,
      is_used = False, used_at = None\<rparr>"

definition boss_log :: BattleLog where
  "boss_log =
     \<lparr>log_version = 1, battle_start_time = 1700000010000, battle_end_time = 1700000070000,
      log_chapter = 1, log_stage = 10, player_level = 1, player_power = 100,
      player_class = 1,
      stats = \<lparr>total_damage_dealt = 1200, total_damage_received = 300, mobs_killed = 1,
               skills_used = 5, potions_used = 1, duration_ms = 60000\<rparr>,
      mob_kills = [\<lparr>kill_name = ''Orc Warlord'', kill_level = 1, kill_max_health = 1200,
                    kill_timestamp = 1700000069000\<rparr>],
      checksum = None\<rparr>"

definition boss_request :: StageCompleteRequest where
  "boss_request =
     \<lparr>req_session_token = ''token-1'', req_chapter = 1, req_stage = 10,
      battle_log = boss_log\<rparr>"

definition boss_db :: db where
  "boss_db = \<lparr>characters = [''hero'' \<mapsto> hero], battle_sessions = [''token-1'' \<mapsto> boss_session]\<rparr>"

text \<open>
  The rows and the response after the completion at clock readings 1700000100000000 and
  1700000100000001: the scalar columns of the character have moved, its two JSON columns
  have not.
\<close>

definition hero_after :: Character where
  "hero_after =
     hero\<lparr>char_level := 2, char_xp := 408, char_power := 165, char_gold := 757,
          char_gems := 19, free_stat_points := 5\<rparr>"

definition boss_session_used :: BattleSession where
  "boss_session_used = boss_session\<lparr>is_used := True, used_at := Some 1700000100000001\<rparr>"

definition boss_db_after :: db where
  "boss_db_after =
     \<lparr>characters = [''hero'' \<mapsto> hero_after],
      battle_sessions = [''token-1'' \<mapsto> boss_session_used]\<rparr>"

definition boss_response :: StageCompleteResponse where
  "boss_response =
     \<lparr>success = True, already_completed = False, resp_error = None,
      resp_rewards = Some \<lparr>resp_gold = 657, resp_gems = 9, resp_xp = 408,
                           resp_items = [boss_drop]\<rparr>,
      resp_progression =
        Some \<lparr>resp_highest_chapter = 2, resp_highest_stage = 1,
              resp_completed_stages =
                [''1-1'', ''1-2'', ''1-3'', ''1-4'', ''1-5'', ''1-6'', ''1-7'', ''1-8'',
                 ''1-9'', ''1-10'']\<rparr>,
      level_up = True, resp_new_level = Some 2\<rparr>"

text \<open>
  The same character with an empty inventory dictionary stored, as \<open>save_character\<close>
  stores it for a client that sends \<open>{}\<close>, and its row after the same completion.
\<close>

definition bare_hero :: Character where
  "bare_hero = hero\<lparr>char_inventory := []\<rparr>"

definition bare_db :: db where
  "bare_db = \<lparr>characters = [''hero'' \<mapsto> bare_hero], battle_sessions = [''token-1'' \<mapsto> boss_session]\<rparr>"

definition bare_db_after :: db where
  "bare_db_after =
     \<lparr>characters =
        [''hero'' \<mapsto> hero_after\<lparr>char_inventory :=
                                     [(''items'', JList [boss_drop]), (''max_slots'', JInt 50)]\<rparr>],
      battle_sessions = [''token-1'' \<mapsto> boss_session_used]\<rparr>"

text \<open>The battle log of a client that reports a power of \<open>10^400\<close>.\<close>

definition huge_power_log :: BattleLog where
  "huge_power_log = boss_log\<lparr>player_power := 10 ^ 400\<rparr>"

text \<open>A character's \<open>chapters\<close> dictionary and inventory, as stored in a database.\<close>

definition chapters_in :: "db \<Rightarrow> string \<Rightarrow> chapters_dict option" where
  "chapters_in d character_id =
     (case characters d character_id of
        None \<Rightarrow> None
      | Some c \<Rightarrow> chapters (char_progression c))"

definition inventory_in :: "db \<Rightarrow> string \<Rightarrow> json_dict option" where
  "inventory_in d character_id = map_option char_inventory (characters d character_id)"


section \<open>Levels: the loop returns, and what it returns\<close>

lemma xp_for_level_mono: "0 \<le> a \<Longrightarrow> a \<le> b \<Longrightarrow> xp_for_level a \<le> xp_for_level b"
  by (simp add: xp_for_level_def mult_mono)

text \<open>
  The loop started at a level of at least 1 leaves after finitely many rounds: while the
  guard holds, \<open>level + 1 \<le> 100 * (level + 1)\<^sup>2 \<le> total_xp\<close>, so \<open>total_xp + 1 - level\<close>
  is positive and falls by one each round.
\<close>

lemma level_loop_returns:
  "1 \<le> level \<Longrightarrow> \<exists>L. level_loop total_xp level = Some L \<and> level \<le> L
     \<and> \<not> xp_for_level (L + 1) \<le> total_xp
     \<and> (level < L \<longrightarrow> xp_for_level L \<le> total_xp)"
proof (induction "nat (total_xp + 1 - level)" arbitrary: level rule: less_induct)
  case less
  show ?case
  proof (cases "xp_for_level (level + 1) \<le> total_xp")
    case False
    then show ?thesis by (subst level_loop.simps) auto
  next
    case True
    have "level + 1 \<le> (level + 1) * (level + 1)" using less.prems
      by (simp add: mult_le_cancel_left1)
    also have "\<dots> \<le> 100 * ((level + 1) * (level + 1))"
      using zero_le_square[of "level + 1"] by linarith
    also have "\<dots> = xp_for_level (level + 1)" by (simp only: xp_for_level_def mult.assoc)
    finally have "level + 1 \<le> total_xp" using True by linarith
    then have "nat (total_xp + 1 - (level + 1)) < nat (total_xp + 1 - level)" by simp
    from less.hyps[OF this] less.prems
    obtain L where L: "level_loop total_xp (level + 1) = Some L" "level + 1 \<le> L"
      "\<not> xp_for_level (L + 1) \<le> total_xp"
      "level + 1 < L \<longrightarrow> xp_for_level L \<le> total_xp"
      by auto
    have "xp_for_level L \<le> total_xp"
      using True L(2,4) by (cases "L = level + 1") auto
    with L True show ?thesis by (subst level_loop.simps) auto
  qed
qed

lemma calculate_level_from_xp_returns:
  "\<exists>L. calculate_level_from_xp total_xp = Some L \<and> 1 \<le> L
     \<and> \<not> xp_for_level (L + 1) \<le> total_xp
     \<and> (1 < L \<longrightarrow> xp_for_level L \<le> total_xp)"
  unfolding calculate_level_from_xp_def using level_loop_returns[of 1 total_xp] by simp

lemma apply_xp_returns:
  "\<exists>L. apply_xp current_xp current_level gained
          = Some (current_xp + gained, L, current_level < L) \<and> 1 \<le> L"
  using calculate_level_from_xp_returns[of "current_xp + gained"]
  by (auto simp: apply_xp_def)

text \<open>
  C10. \<open>calculate_level_from_xp\<close> returns for every integer \<open>total_xp\<close>, negative ones
  included; the level it returns is at least 1, and it is 1 when \<open>total_xp\<close> is below 100.
\<close>

theorem calculate_level_from_xp_terminates:
  "\<exists>L. calculate_level_from_xp total_xp = Some L \<and> 1 \<le> L \<and> (total_xp < 100 \<longrightarrow> L = 1)"
proof -
  obtain L where L: "calculate_level_from_xp total_xp = Some L" "1 \<le> L"
    "1 < L \<longrightarrow> xp_for_level L \<le> total_xp"
    using calculate_level_from_xp_returns[of total_xp] by blast
  have "L = 1" if "total_xp < 100"
  proof (rule ccontr)
    assume "L \<noteq> 1"
    then have "1 < L" using L(2) by simp
    then have "xp_for_level L \<le> total_xp" using L(3) by simp
    moreover have "xp_for_level 1 \<le> xp_for_level L" using L(2) by (intro xp_for_level_mono) auto
    ultimately show False using that by (simp add: xp_for_level_def)
  qed
  with L show ?thesis by blast
qed

theorem calculate_level_from_xp_terminates_witness:
  "(-7::int) < 100 \<and> calculate_level_from_xp (-7) = Some 1"
  using calculate_level_from_xp_terminates[of "-7"] by auto

text \<open>
  C8. For \<open>current_xp \<ge> 0\<close>, \<open>current_level \<ge> 1\<close> and \<open>gained \<ge> 0\<close>, \<open>apply_xp\<close> returns
  the new total, the level \<open>L\<close> and whether \<open>L\<close> exceeds the current level, where \<open>L \<ge> 1\<close>
  is the largest level whose threshold \<open>100 * L\<^sup>2\<close> the new total reaches, and 1 when the
  total reaches no threshold. In particular \<open>apply_xp(0, 1, 150) = (150, 1, False)\<close> and
  \<open>apply_xp(0, 1, 500) = (500, 2, True)\<close>.
\<close>

theorem apply_xp_largest_level:
  assumes "0 \<le> current_xp" and "1 \<le> current_level" and "0 \<le> gained"
  shows "(\<exists>L. apply_xp current_xp current_level gained
               = Some (current_xp + gained, L, current_level < L)
           \<and> 1 \<le> L
           \<and> (\<forall>k. 1 \<le> k \<and> xp_for_level k \<le> current_xp + gained \<longrightarrow> k \<le> L)
           \<and> (xp_for_level L \<le> current_xp + gained
                \<or> (L = 1 \<and> (\<forall>k. 1 \<le> k \<longrightarrow> current_xp + gained < xp_for_level k))))
         \<and> apply_xp 0 1 150 = Some (150, 1, False)
         \<and> apply_xp 0 1 500 = Some (500, 2, True)"
proof -
  define t where "t = current_xp + gained"
  obtain L where L: "calculate_level_from_xp t = Some L" "1 \<le> L"
    "\<not> xp_for_level (L + 1) \<le> t" "1 < L \<longrightarrow> xp_for_level L \<le> t"
    using calculate_level_from_xp_returns[of t] by blast
  have ap: "apply_xp current_xp current_level gained = Some (t, L, current_level < L)"
    using L(1) by (simp add: apply_xp_def t_def)
  have mx: "k \<le> L" if "1 \<le> k" "xp_for_level k \<le> t" for k
  proof (rule ccontr)
    assume "\<not> k \<le> L"
    then have "xp_for_level (L + 1) \<le> xp_for_level k"
      using L(2) by (intro xp_for_level_mono) auto
    then show False using that(2) L(3) by simp
  qed
  have ex: "xp_for_level L \<le> t \<or> (L = 1 \<and> (\<forall>k. 1 \<le> k \<longrightarrow> t < xp_for_level k))"
  proof (cases "xp_for_level L \<le> t")
    case True then show ?thesis by simp
  next
    case False
    then have "L = 1" using L(2,4) by force
    moreover have "t < xp_for_level k" if "1 \<le> k" for k
      using xp_for_level_mono[of 1 k] that False \<open>L = 1\<close> by simp
    ultimately show ?thesis by simp
  qed
  have general: "\<exists>L. apply_xp current_xp current_level gained
               = Some (current_xp + gained, L, current_level < L)
           \<and> 1 \<le> L
           \<and> (\<forall>k. 1 \<le> k \<and> xp_for_level k \<le> current_xp + gained \<longrightarrow> k \<le> L)
           \<and> (xp_for_level L \<le> current_xp + gained
                \<or> (L = 1 \<and> (\<forall>k. 1 \<le> k \<longrightarrow> current_xp + gained < xp_for_level k)))"
    using ap mx ex L(2) unfolding t_def by blast
  have a150: "apply_xp 0 1 150 = Some (150, 1, False)"
    by (simp add: apply_xp_def calculate_level_from_xp_def level_loop.simps xp_for_level_def
        cong: option.case_cong)
  have a500: "apply_xp 0 1 500 = Some (500, 2, True)"
    by (simp add: apply_xp_def calculate_level_from_xp_def level_loop.simps xp_for_level_def
        cong: option.case_cong)
  from general a150 a500 show ?thesis by blast
qed

theorem apply_xp_largest_level_witness:
  "(0::int) \<le> 350 \<and> (1::int) \<le> 1 \<and> (0::int) \<le> 550
     \<and> (\<exists>L. apply_xp 350 1 550 = Some (900, L, 1 < L) \<and> xp_for_level L \<le> 900 \<and> 3 \<le> L)"
proof -
  have h: "(0::int) \<le> 350" "(1::int) \<le> 1" "(0::int) \<le> 550" by simp_all
  from apply_xp_largest_level[OF h]
  obtain L where L: "apply_xp 350 1 550 = Some (350 + 550, L, 1 < L)"
    "\<forall>k. 1 \<le> k \<and> xp_for_level k \<le> 350 + 550 \<longrightarrow> k \<le> L"
    "xp_for_level L \<le> 350 + 550 \<or> (L = 1 \<and> (\<forall>k. 1 \<le> k \<longrightarrow> 350 + 550 < xp_for_level k))"
    by blast
  have "xp_for_level 3 \<le> 350 + 550" by (simp add: xp_for_level_def)
  then have "3 \<le> L" using L(2) by auto
  then have "xp_for_level L \<le> 900" using L(3) by auto
  with L(1) \<open>3 \<le> L\<close> show ?thesis by auto
qed


section \<open>The difficulty curve and the rewards\<close>

lemma py_int_of_int [simp]: "py_int (real_of_int n) = n"
  by (simp add: py_int_def)

lemma py_int_numeral [simp]: "py_int (numeral k) = numeral k"
  by (simp add: py_int_def)

lemma py_int_times_numeral [simp]: "py_int (real_of_int n * numeral k) = n * numeral k"
proof -
  have "real_of_int n * numeral k = real_of_int (n * numeral k)" by simp
  then show ?thesis by (simp only: py_int_of_int)
qed

text \<open>
  C6. For every chapter and stage the difficulty multiplier is
  \<open>(1 + (chapter - 1) * 0.5) + (stage - 1) * 0.1\<close>, plus 0.5 at stage 10, or plus 0.25 at
  stage 5; the two bonuses exclude each other.
\<close>

theorem get_difficulty_multiplier_formula:
  "get_difficulty_multiplier chapter stage =
     (1 + (real_of_int chapter - 1) * 0.5) + (real_of_int stage - 1) * 0.1
       + (if stage = 10 then 0.5 else if stage = 5 then 0.25 else 0)"
  by (simp add: get_difficulty_multiplier_def Let_def)

text \<open>
  C5, as stated: at stage 10 the monster count is 1 and the difficulty is
  \<open>1 + (chapter - 1) * 0.5 + 0.5\<close>. The difficulty also carries the stage increment
  \<open>(10 - 1) * 0.1\<close>; at chapter 1 it is 2.4 and not 1.5.
\<close>

theorem boss_stage_difficulty_counterexample:
  "\<not> (get_mob_count 1 10 = 1
       \<and> get_difficulty_multiplier 1 10 = 1 + (real_of_int 1 - 1) * 0.5 + 0.5)"
  by (simp add: get_difficulty_multiplier_def get_mob_count_def Let_def)

lemma initial_boss_stage:
  "\<exists>m. generate_stage_mobs initial_class_state g chapter 10 = (Inr [m], initial_class_state, g)"
proof -
  have "(chapter - 1) mod 3 = 0 \<or> (chapter - 1) mod 3 = 1 \<or> (chapter - 1) mod 3 = 2"
    by presburger
  then show ?thesis
    by (auto simp: generate_stage_mobs_def Let_def dict_keys_def dict_item_def
        initial_class_state_def)
qed

text \<open>
  C5, amended. For every chapter in \<open>[1, 20]\<close> and stage 10, the monster count is 1, the
  generator returns exactly one monster, and the difficulty multiplier is
  \<open>1 + (chapter - 1) * 0.5 + 0.9 + 0.5\<close>.
\<close>

theorem boss_stage_count_and_difficulty:
  assumes "1 \<le> chapter" and "chapter \<le> 20"
  shows "get_mob_count chapter 10 = 1
       \<and> (\<exists>m. fst (generate_stage_mobs initial_class_state g chapter 10) = Inr [m])
       \<and> get_difficulty_multiplier chapter 10 = 1 + (real_of_int chapter - 1) * 0.5 + 0.9 + 0.5"
  using initial_boss_stage[of g "chapter"]
  by (auto simp: get_mob_count_def get_difficulty_multiplier_def Let_def)

theorem boss_stage_count_and_difficulty_witness:
  "(1::int) \<le> 4 \<and> (4::int) \<le> 20 \<and> get_mob_count 4 10 = 1
     \<and> get_difficulty_multiplier 4 10 = 3.9"
proof -
  have h: "(1::int) \<le> 4" "(4::int) \<le> 20" by simp_all
  from boss_stage_count_and_difficulty[OF h] show ?thesis by simp
qed

text \<open>
  C7. For every chapter, stage and monster list, \<open>generate_stage_rewards\<close> returns
  \<open>gold = int((100 * chapter + 10 * stage + sum of gold_reward) * m)\<close>,
  \<open>xp = int((50 * chapter + 5 * stage + sum of xp_reward) * m)\<close> and
  \<open>gems = int((chapter + stage // 5) * m)\<close>, where \<open>m\<close> is 3.0 at stage 10, 2.0 at stage 5
  and 1.0 otherwise. The products are whole numbers, so each truncation is exact; with no
  monster, chapter 1 and stage 10 give 600 gold.
\<close>

theorem generate_stage_rewards_formula:
  "gold (generate_stage_rewards chapter stage mobs)
     = py_int (real_of_int (100 * chapter + 10 * stage + (\<Sum>m\<leftarrow>mobs. gold_reward m))
               * (if stage = 10 then 3.0 else if stage = 5 then 2.0 else 1.0))
   \<and> xp (generate_stage_rewards chapter stage mobs)
     = py_int (real_of_int (50 * chapter + 5 * stage + (\<Sum>m\<leftarrow>mobs. xp_reward m))
               * (if stage = 10 then 3.0 else if stage = 5 then 2.0 else 1.0))
   \<and> gems (generate_stage_rewards chapter stage mobs)
     = py_int (real_of_int (chapter + stage div 5)
               * (if stage = 10 then 3.0 else if stage = 5 then 2.0 else 1.0))
   \<and> gold (generate_stage_rewards chapter stage mobs)
     = (100 * chapter + 10 * stage + (\<Sum>m\<leftarrow>mobs. gold_reward m))
         * (if stage = 10 then 3 else if stage = 5 then 2 else 1)
   \<and> xp (generate_stage_rewards chapter stage mobs)
     = (50 * chapter + 5 * stage + (\<Sum>m\<leftarrow>mobs. xp_reward m))
         * (if stage = 10 then 3 else if stage = 5 then 2 else 1)
   \<and> gems (generate_stage_rewards chapter stage mobs)
     = (chapter + stage div 5) * (if stage = 10 then 3 else if stage = 5 then 2 else 1)
   \<and> gold (generate_stage_rewards 1 10 []) = 600"
  by (simp add: generate_stage_rewards_def Let_def del: of_int_add of_int_mult)


section \<open>The mini-boss branch and the class tables\<close>

lemma dict_item_allocated:
  "dict_item table k = Inr a \<Longrightarrow> list_all (\<lambda>(k, a). a < n) table \<Longrightarrow> a < n"
  by (auto simp: dict_item_def list_all_iff split: option.splits dest!: map_of_SomeD)

lemma table_contents_cong:
  "list_all (\<lambda>(k, a). a < length (heap cs)) table
   \<Longrightarrow> \<forall>a < length (heap cs). heap cs' ! a = heap cs ! a
   \<Longrightarrow> table_contents cs' table = table_contents cs table"
  by (auto simp: table_contents_def list_all_iff)

text \<open>
  The mini-boss branch either raises before it has touched anything, or leaves the class
  state with one more object on the heap, the scaled copy, and every table as it was.
\<close>

lemma miniboss_stage_cases:
  "(\<exists>e. generate_stage_mobs cs g chapter 5 = (Inl e, cs, g))
   \<or> (\<exists>boss_id a r g'.
         dict_item (BOSS_TEMPLATES cs) boss_id = Inr a
       \<and> boss_id = dict_keys (BOSS_TEMPLATES cs)
                      ! nat ((chapter - 1) mod int (length (dict_keys (BOSS_TEMPLATES cs))))
       \<and> generate_stage_mobs cs g chapter 5
           = (r, cs\<lparr>heap := heap cs @ [miniboss_template (heap cs ! a)]\<rparr>, g')
       \<and> (\<forall>mobs. r = Inr mobs \<longrightarrow>
             length mobs = 2
           \<and> mobs ! 0 = generate_mob (boss_id @ ''_mini'') (miniboss_template (heap cs ! a))
                          (get_difficulty_multiplier chapter 5) chapter))"
  by (auto simp: generate_stage_mobs_def Let_def dict_copy_def set_base_health_def
      set_base_damage_def miniboss_template_def nth_append
      split: sum.splits prod.splits)


lemma initial_refs_allocated: "refs_allocated initial_class_state"
  by (simp add: refs_allocated_def initial_class_state_def)

lemma first_miniboss_call:
  "generate_stage_mobs initial_class_state (sconst 0) 1 5
     = (Inr [generate_mob ''orc_warlord_mini'' (miniboss_template orc_warlord) 1.65 1,
             generate_mob ''orc_warrior'' orc_warrior 1.65 1],
        initial_class_state\<lparr>heap := heap initial_class_state @ [miniboss_template orc_warlord]\<rparr>,
        sconst 0)"
  by (simp add: generate_stage_mobs_def Let_def dict_keys_def dict_item_def dict_get_def
      dict_copy_def set_base_health_def set_base_damage_def miniboss_template_def
      random_choice_def get_difficulty_multiplier_def initial_class_state_def)

lemma second_miniboss_call:
  "generate_stage_mobs
     (initial_class_state\<lparr>heap := heap initial_class_state @ [miniboss_template orc_warlord]\<rparr>)
     (sconst 1) 1 5
     = (Inr [generate_mob ''orc_warlord_mini'' (miniboss_template orc_warlord) 1.65 1,
             generate_mob ''goblin_archer'' goblin_archer 1.65 1],
        initial_class_state\<lparr>heap := heap initial_class_state
                 @ [miniboss_template orc_warlord, miniboss_template orc_warlord]\<rparr>,
        sconst 1)"
  by (simp add: generate_stage_mobs_def Let_def dict_keys_def dict_item_def dict_get_def
      dict_copy_def set_base_health_def set_base_damage_def miniboss_template_def
      random_choice_def get_difficulty_multiplier_def initial_class_state_def)

lemma miniboss_health:
  "health (generate_mob ''orc_warlord_mini'' (miniboss_template orc_warlord) 1.65 1) = 495"
  by (simp add: generate_mob_def miniboss_template_def orc_warlord_def Let_def)

text \<open>
  C9. Generating the monsters of a mini-boss stage leaves \<open>MOB_TEMPLATES\<close> and
  \<open>BOSS_TEMPLATES\<close> as they were, table and templates: the 60% scaling is written into
  a copy. So a second call for the same chapter finds the same boss template, and its
  mini-boss has the same health and damage as the first.
\<close>

theorem miniboss_generation_leaves_tables:
  assumes "refs_allocated cs"
    and "generate_stage_mobs cs g chapter 5 = (r1, cs1, g1)"
    and "generate_stage_mobs cs1 g2 chapter 5 = (r2, cs2, g3)"
  shows "MOB_TEMPLATES cs1 = MOB_TEMPLATES cs \<and> BOSS_TEMPLATES cs1 = BOSS_TEMPLATES cs
       \<and> table_contents cs1 (MOB_TEMPLATES cs1) = table_contents cs (MOB_TEMPLATES cs)
       \<and> table_contents cs1 (BOSS_TEMPLATES cs1) = table_contents cs (BOSS_TEMPLATES cs)
       \<and> refs_allocated cs1
       \<and> (\<forall>mobs1 mobs2. r1 = Inr mobs1 \<and> r2 = Inr mobs2 \<longrightarrow>
             health (mobs2 ! 0) = health (mobs1 ! 0)
           \<and> damage (mobs2 ! 0) = damage (mobs1 ! 0))"
proof -
  have alloc: "list_all (\<lambda>(k, a). a < length (heap cs)) (MOB_TEMPLATES cs)"
    "list_all (\<lambda>(k, a). a < length (heap cs)) (BOSS_TEMPLATES cs)"
    using assms(1) by (simp_all add: refs_allocated_def)
  have frame: "MOB_TEMPLATES cs1 = MOB_TEMPLATES cs \<and> BOSS_TEMPLATES cs1 = BOSS_TEMPLATES cs
      \<and> length (heap cs) \<le> length (heap cs1)
      \<and> (\<forall>a < length (heap cs). heap cs1 ! a = heap cs ! a)"
    using miniboss_stage_cases[of cs g "chapter"] assms(2)
    by (auto simp: nth_append)
  then have same: "\<forall>a < length (heap cs). heap cs1 ! a = heap cs ! a" by blast
  have tc: "table_contents cs1 (MOB_TEMPLATES cs1) = table_contents cs (MOB_TEMPLATES cs)"
    "table_contents cs1 (BOSS_TEMPLATES cs1) = table_contents cs (BOSS_TEMPLATES cs)"
    using frame table_contents_cong[OF alloc(1) same] table_contents_cong[OF alloc(2) same]
    by simp_all
  have ra: "refs_allocated cs1"
    using frame alloc by (auto simp: refs_allocated_def list_all_iff)
  have again: "health (mobs2 ! 0) = health (mobs1 ! 0) \<and> damage (mobs2 ! 0) = damage (mobs1 ! 0)"
    if "r1 = Inr mobs1" "r2 = Inr mobs2" for mobs1 mobs2
  proof -
    from miniboss_stage_cases[of cs g "chapter"] assms(2) that(1)
    obtain boss_id a where a: "dict_item (BOSS_TEMPLATES cs) boss_id = Inr a"
      "boss_id = dict_keys (BOSS_TEMPLATES cs)
                      ! nat ((chapter - 1) mod int (length (dict_keys (BOSS_TEMPLATES cs))))"
      "mobs1 ! 0 = generate_mob (boss_id @ ''_mini'') (miniboss_template (heap cs ! a))
                          (get_difficulty_multiplier chapter 5) chapter"
      by auto
    from miniboss_stage_cases[of cs1 g2 "chapter"] assms(3) that(2)
    obtain boss_id' a' where a': "dict_item (BOSS_TEMPLATES cs1) boss_id' = Inr a'"
      "boss_id' = dict_keys (BOSS_TEMPLATES cs1)
                      ! nat ((chapter - 1) mod int (length (dict_keys (BOSS_TEMPLATES cs1))))"
      "mobs2 ! 0 = generate_mob (boss_id' @ ''_mini'') (miniboss_template (heap cs1 ! a'))
                          (get_difficulty_multiplier chapter 5) chapter"
      by auto
    have "boss_id' = boss_id" using a(2) a'(2) frame by simp
    then have "a' = a" using a(1) a'(1) frame by simp
    moreover have "a < length (heap cs)" using a(1) alloc(2) by (rule dict_item_allocated)
    ultimately have "heap cs1 ! a' = heap cs ! a" using same by simp
    with a(3) a'(3) \<open>boss_id' = boss_id\<close> show ?thesis by simp
  qed
  from frame tc ra again show ?thesis by blast
qed

theorem miniboss_generation_leaves_tables_witness:
  "refs_allocated initial_class_state
   \<and> (\<exists>b s cs1 g1 b2 s2 cs2 g2.
         generate_stage_mobs initial_class_state (sconst 0) 1 5 = (Inr [b, s], cs1, g1)
       \<and> generate_stage_mobs cs1 (sconst 1) 1 5 = (Inr [b2, s2], cs2, g2)
       \<and> table_contents cs1 (BOSS_TEMPLATES cs1)
           = [(''orc_warlord'', orc_warlord), (''lich_king'', lich_king), (''dragon'', dragon)]
       \<and> health b = 495 \<and> health b2 = 495 \<and> damage b2 = damage b)"
proof -
  let ?b = "generate_mob ''orc_warlord_mini'' (miniboss_template orc_warlord) 1.65 1"
  let ?cs1 = "initial_class_state\<lparr>heap := heap initial_class_state
                                          @ [miniboss_template orc_warlord]\<rparr>"
  from miniboss_generation_leaves_tables
         [OF initial_refs_allocated first_miniboss_call second_miniboss_call]
  have tc: "table_contents ?cs1 (BOSS_TEMPLATES ?cs1)
              = table_contents initial_class_state (BOSS_TEMPLATES initial_class_state)"
    and eq: "health ?b = health ?b \<and> damage ?b = damage ?b"
    by simp_all
  have "table_contents initial_class_state (BOSS_TEMPLATES initial_class_state)
          = [(''orc_warlord'', orc_warlord), (''lich_king'', lich_king), (''dragon'', dragon)]"
    by (simp add: table_contents_def initial_class_state_def)
  with tc have tc': "table_contents ?cs1 (BOSS_TEMPLATES ?cs1)
          = [(''orc_warlord'', orc_warlord), (''lich_king'', lich_king), (''dragon'', dragon)]"
    by simp
  show ?thesis
    using initial_refs_allocated first_miniboss_call second_miniboss_call tc' miniboss_health
    by blast
qed


section \<open>The validator\<close>

lemma boss_mobs_health: "map health boss_mobs = [1200]"
  by (simp add: boss_mobs_def generate_mob_def get_difficulty_multiplier_def orc_warlord_def
      Let_def)

lemma boss_mobs_length: "length boss_mobs = 1"
  by (simp add: boss_mobs_def)

text \<open>The session's creation time in milliseconds, for an instant after the epoch.\<close>

lemma session_ts_ms: "0 \<le> dt \<Longrightarrow> py_int (timestamp dt * 1000) = dt div 1000"
proof -
  assume "0 \<le> dt"
  have "timestamp dt * 1000 = real_of_int dt / real_of_int 1000" by (simp add: timestamp_def)
  then have "\<lfloor>timestamp dt * 1000\<rfloor> = dt div 1000" by (simp only: floor_divide_of_int_eq)
  moreover have "0 \<le> timestamp dt * 1000" using \<open>0 \<le> dt\<close> by (simp add: timestamp_def)
  ultimately show ?thesis by (simp add: py_int_def)
qed

lemma float_of_int_small [simp]: "float_of_int 100 = Inr 100" "float_of_int 1200 = Inr 1200"
  by (simp_all add: float_of_int_def)

lemma float_of_int_huge: "float_of_int (10 ^ 400) = Inl OverflowError"
  by (simp add: float_of_int_def)

text \<open>
  For a power and a summed health within the range of a double the validator returns, and
  it accepts exactly when the six bounds hold.
\<close>

lemma validate_battle_log_in_range:
  assumes "log_chapter bl = expected_chapter" and "log_stage bl = expected_stage"
    and "\<bar>player_power bl\<bar> < 2 ^ 1024 - 2 ^ 970"
    and "\<bar>\<Sum>m\<leftarrow>expected_mobs. health m\<bar> < 2 ^ 1024 - 2 ^ 970"
  shows "\<exists>ok err.
       validate_battle_log bl expected_chapter expected_stage expected_mobs session_created_at
         = Inr (ok, err)
     \<and> (ok \<longleftrightarrow>
           5000 \<le> battle_end_time bl - battle_start_time bl
         \<and> battle_end_time bl - battle_start_time bl \<le> 600000
         \<and> battle_start_time bl \<ge> py_int (timestamp session_created_at * 1000) - 5000
         \<and> mobs_killed (stats bl) = int (length expected_mobs)
         \<and> real_of_int (total_damage_dealt (stats bl))
              \<ge> 0.5 * real_of_int (\<Sum>m\<leftarrow>expected_mobs. health m)
         \<and> total_damage_dealt (stats bl) \<le> 100 * (player_power bl * 50)
         \<and> \<bar>duration_ms (stats bl) - (battle_end_time bl - battle_start_time bl)\<bar> \<le> 1000)"
  using assms
  by (auto simp: validate_battle_log_def Let_def MIN_BATTLE_DURATION_MS_def
      MAX_BATTLE_DURATION_MS_def MAX_DAMAGE_PER_POWER_def float_of_int_def)

lemma boss_log_accepted:
  "validate_battle_log boss_log 1 10 boss_mobs 1700000000000000 = Inr (True, None)"
  by (simp add: validate_battle_log_def boss_log_def boss_mobs_health boss_mobs_length Let_def
      timestamp_def MIN_BATTLE_DURATION_MS_def MAX_BATTLE_DURATION_MS_def
      MAX_DAMAGE_PER_POWER_def)

lemma huge_power_log_fields:
  "log_chapter huge_power_log = 1" "log_stage huge_power_log = 10"
  "battle_start_time huge_power_log = 1700000010000"
  "battle_end_time huge_power_log = 1700000070000"
  "stats huge_power_log = stats boss_log"
  "mobs_killed (stats boss_log) = 1" "total_damage_dealt (stats boss_log) = 1200"
  "duration_ms (stats boss_log) = 60000"
  by (simp_all add: huge_power_log_def boss_log_def)

lemma huge_power_overflows: "float_of_int (player_power huge_power_log) = Inl OverflowError"
  by (simp add: huge_power_log_def float_of_int_def)

lemma huge_power_raises:
  "validate_battle_log huge_power_log 1 10 boss_mobs 1700000000000000 = Inl OverflowError"
  by (simp add: validate_battle_log_def huge_power_log_fields huge_power_overflows
      boss_mobs_length Let_def timestamp_def MIN_BATTLE_DURATION_MS_def
      MAX_BATTLE_DURATION_MS_def)

text \<open>
  C3. For a battle log whose chapter and stage are the session's, \<open>validate_battle_log\<close>
  should accept exactly when the six bounds hold: duration in \<open>[5000, 600000]\<close> ms, start
  no earlier than 5000 ms before the session's creation, kills equal to the number of
  monsters, damage at least half the summed monster health and at most
  \<open>100 * (player_power * 50)\<close>, reported duration within 1000 ms. The log of the boss
  battle with \<open>player_power = 10^400\<close> meets all six bounds, and the validator does not
  accept it: it raises \<open>OverflowError\<close> on \<open>player_power * MIN_DAMAGE_PER_POWER\<close>, a
  product it never uses. The same log with a power of 100 is accepted.
\<close>

theorem validate_battle_log_overflow:
  "log_chapter huge_power_log = 1 \<and> log_stage huge_power_log = 10
   \<and> 5000 \<le> battle_end_time huge_power_log - battle_start_time huge_power_log
   \<and> battle_end_time huge_power_log - battle_start_time huge_power_log \<le> 600000
   \<and> battle_start_time huge_power_log \<ge> py_int (timestamp 1700000000000000 * 1000) - 5000
   \<and> mobs_killed (stats huge_power_log) = int (length boss_mobs)
   \<and> real_of_int (total_damage_dealt (stats huge_power_log))
        \<ge> 0.5 * real_of_int (\<Sum>m\<leftarrow>boss_mobs. health m)
   \<and> total_damage_dealt (stats huge_power_log) \<le> 100 * (player_power huge_power_log * 50)
   \<and> \<bar>duration_ms (stats huge_power_log)
        - (battle_end_time huge_power_log - battle_start_time huge_power_log)\<bar> \<le> 1000
   \<and> validate_battle_log huge_power_log 1 10 boss_mobs 1700000000000000 = Inl OverflowError
   \<and> validate_battle_log boss_log 1 10 boss_mobs 1700000000000000 = Inr (True, None)"
proof -
  have "total_damage_dealt (stats huge_power_log) \<le> 100 * (player_power huge_power_log * 50)"
    by (simp add: huge_power_log_def boss_log_def)
  then show ?thesis
    using boss_log_accepted huge_power_raises
    by (simp add: huge_power_log_fields boss_mobs_health boss_mobs_length timestamp_def)
qed

theorem validate_battle_log_overflow_witness:
  "validate_battle_log huge_power_log 1 10 boss_mobs 1700000000000000 \<noteq> Inr (True, None)
   \<and> total_damage_dealt (stats huge_power_log) \<le> 100 * (player_power huge_power_log * 50)"
  using validate_battle_log_overflow by simp


section \<open>The completion endpoint, path by path\<close>

lemma build_response_cases:
  "(\<exists>k. build_response rw cp b L = Raised (Uncaught (KeyError k)))
   \<or> (\<exists>r. build_response rw cp b L = Returned r \<and> success r \<and> \<not> already_completed r)"
  by (simp add: build_response_def split: option.splits)

lemma apply_completion_cases:
  assumes "apply_completion d used_now cid tok c s = Some (out, d')"
  shows "(\<exists>e. out = Raised (Uncaught e)) \<or> (\<exists>r. out = Returned r \<and> success r)"
proof (cases "apply_rewards c (session_rewards s)")
  case None
  with assms show ?thesis by (simp add: apply_completion_def)
next
  case (Some res)
  show ?thesis
  proof (cases res)
    case (Inl e)
    with Some assms show ?thesis by (auto simp: apply_completion_def)
  next
    case (Inr t)
    obtain c2 inventory lvl did where t: "t = (c2, inventory, lvl, did)"
      by (cases t) auto
    from assms Some Inr t
    have "out = build_response (session_rewards s)
                  (snd (update_progression c2 (session_chapter s) (session_stage s))) did lvl"
      by (auto simp: apply_completion_def Let_def split: prod.splits)
    with build_response_cases[of "session_rewards s"
           "snd (update_progression c2 (session_chapter s) (session_stage s))" did lvl]
    show ?thesis by auto
  qed
qed

lemma complete_stage_rejection:
  assumes "complete_stage d now used_now user cid request = Some (out, d')"
    and "(\<exists>code msg. out = Raised (HTTPException code msg)) \<or> (\<exists>r. out = Returned r \<and> \<not> success r)"
  shows "d' = d"
proof (cases "\<exists>c s. apply_completion d used_now cid (req_session_token request) c s
                      = Some (out, d')")
  case True
  then obtain c s where "apply_completion d used_now cid (req_session_token request) c s
                           = Some (out, d')"
    by auto
  from apply_completion_cases[OF this] assms(2) show ?thesis by auto
next
  case False
  with assms show ?thesis
    by (auto simp: complete_stage_def Let_def
        split: sum.splits option.splits if_splits prod.splits)
qed

lemma complete_stage_rejected_live:
  assumes "characters d cid = Some c" and "char_user_id c = user"
    and "battle_sessions d (req_session_token request) = Some s"
    and "session_character_id s = cid" and "\<not> is_used s"
    and "is_expired now s
         \<or> session_chapter s \<noteq> req_chapter request \<or> session_stage s \<noteq> req_stage request
         \<or> (\<exists>err. validate_battle_log (battle_log request) (session_chapter s) (session_stage s)
                     (mob_config s) (created_at s) = Inr (False, err))"
  shows "\<exists>r. complete_stage d now used_now user cid request = Some (Returned r, d)
           \<and> \<not> success r \<and> \<not> already_completed r"
  using assms
  by (auto simp: complete_stage_def get_character_for_user_def select_session_def Let_def
      failure_response_def)

lemma complete_stage_already_used:
  assumes "characters d cid = Some c" and "char_user_id c = user"
    and "battle_sessions d (req_session_token request) = Some s"
    and "session_character_id s = cid" and "is_used s"
  shows "complete_stage d now used_now user cid request
           = Some (Returned (failure_response True ''Session already used''), d)"
  using assms
  by (simp add: complete_stage_def get_character_for_user_def select_session_def)

lemma boss_db_rows:
  "characters boss_db ''hero'' = Some hero" "char_user_id hero = ''user-1''"
  "battle_sessions boss_db (req_session_token boss_request) = Some boss_session"
  "session_character_id boss_session = ''hero''" "\<not> is_used boss_session"
  "session_chapter boss_session = req_chapter boss_request"
  "session_stage boss_session = req_stage boss_request"
  by (simp_all add: boss_db_def hero_def boss_request_def boss_session_def)

text \<open>
  C2. A completion attempt that is answered without \<open>success = true\<close>, or refused with
  an HTTP error, leaves the database as it was. In particular an attempt on an unused
  session that has expired, or whose chapter or stage differs from the request's, or whose
  battle log fails validation, is answered with \<open>success = false\<close>, and afterwards the
  session is still unused and the character is the same row.
\<close>

theorem rejection_mutates_nothing:
  "(complete_stage d now used_now user cid request = Some (out, d')
      \<and> ((\<exists>code msg. out = Raised (HTTPException code msg))
           \<or> (\<exists>r. out = Returned r \<and> \<not> success r))
    \<longrightarrow> d' = d)
   \<and> (characters d cid = Some c \<and> char_user_id c = user
      \<and> battle_sessions d (req_session_token request) = Some s
      \<and> session_character_id s = cid \<and> \<not> is_used s
      \<and> (is_expired now s
           \<or> session_chapter s \<noteq> req_chapter request \<or> session_stage s \<noteq> req_stage request
           \<or> (\<exists>err. validate_battle_log (battle_log request) (session_chapter s)
                       (session_stage s) (mob_config s) (created_at s) = Inr (False, err)))
    \<longrightarrow> (\<exists>r. complete_stage d now used_now user cid request = Some (Returned r, d)
             \<and> \<not> success r \<and> \<not> already_completed r
             \<and> battle_sessions d (req_session_token request) = Some s
             \<and> \<not> is_used s
             \<and> characters d cid = Some c))"
  using complete_stage_rejection[of d now used_now user cid request out d']
    complete_stage_rejected_live[of d cid c user request s now used_now]
  by blast

theorem rejection_mutates_nothing_witness:
  "is_expired 1700000700000000 boss_session
   \<and> complete_stage boss_db 1700000700000000 1700000700000001 ''user-1'' ''hero'' boss_request
       = Some (Returned (failure_response False ''Session expired''), boss_db)
   \<and> \<not> success (failure_response False ''Session expired'')
   \<and> battle_sessions boss_db ''token-1'' = Some boss_session
   \<and> \<not> is_used boss_session"
proof -
  have ex: "is_expired 1700000700000000 boss_session"
    by (simp add: is_expired_def boss_session_def)
  have run: "complete_stage boss_db 1700000700000000 1700000700000001 ''user-1'' ''hero'' boss_request
       = Some (Returned (failure_response False ''Session expired''), boss_db)"
    using boss_db_rows ex
    by (simp add: complete_stage_def get_character_for_user_def select_session_def)
  have ns: "\<not> success (failure_response False ''Session expired'')"
    by (simp add: failure_response_def)
  from rejection_mutates_nothing[of boss_db 1700000700000000 1700000700000001 "''user-1''"
         "''hero''" boss_request "Returned (failure_response False ''Session expired'')" boss_db
         hero boss_session]
  have "\<exists>r. complete_stage boss_db 1700000700000000 1700000700000001 ''user-1'' ''hero'' boss_request
              = Some (Returned r, boss_db) \<and> \<not> success r \<and> \<not> already_completed r"
    using boss_db_rows ex by blast
  with run ex ns boss_db_rows show ?thesis
    by (simp add: boss_request_def)
qed


section \<open>The boss battle, step by step\<close>

lemma assigned_simps [simp]:
  "current_value (Loaded_object v) = v" "current_value (New_object v) = v"
  "changed_in_place (Loaded_object v) w = Loaded_object w"
  "changed_in_place (New_object v) w = New_object w"
  "committed_json stored (Loaded_object v) = stored"
  "committed_json stored (New_object v) = v"
  by (simp_all add: current_value_def changed_in_place_def committed_json_def)

lemma boss_rewards:
  "session_rewards boss_session = \<lparr>gold = 657, gems = 9, xp = 408, items = [boss_drop]\<rparr>"
  by (simp add: boss_session_def boss_mobs_def generate_stage_rewards_def generate_mob_def
      get_difficulty_multiplier_def orc_warlord_def Let_def py_int_def)

lemma level_after_boss: "apply_xp 0 1 408 = Some (408, 2, True)"
  by (simp add: apply_xp_def calculate_level_from_xp_def level_loop.simps xp_for_level_def
      cong: option.case_cong)

lemma boss_drop_stored:
  "add_items [(''items'', JList []), (''max_slots'', JInt 50)] [boss_drop]
     = Inr [(''items'', JList [boss_drop]), (''max_slots'', JInt 50)]"
  by (simp add: dict_item_def py_len_def py_int_less_def py_append_def)

lemma hero_rewarded:
  "apply_rewards hero (session_rewards boss_session)
     = Some (Inr (hero\<lparr>char_level := 2, char_xp := 408, char_gold := 757, char_gems := 19,
                       free_stat_points := 5\<rparr>,
                  Loaded_object [(''items'', JList [boss_drop]), (''max_slots'', JInt 50)],
                  2, True))"
  by (simp add: apply_rewards_def boss_rewards level_after_boss Let_def hero_def
      dict_item_def py_len_def py_int_less_def py_append_def)

lemma bare_hero_rewarded:
  "apply_rewards bare_hero (session_rewards boss_session)
     = Some (Inr (bare_hero\<lparr>char_level := 2, char_xp := 408, char_gold := 757,
                            char_gems := 19, free_stat_points := 5\<rparr>,
                  New_object [(''items'', JList [boss_drop]), (''max_slots'', JInt 50)],
                  2, True))"
  by (simp add: apply_rewards_def boss_rewards level_after_boss Let_def hero_def bare_hero_def
      dict_item_def py_len_def py_int_less_def py_append_def)

lemma stage_key_1_10: "stage_key_of 1 10 = ''1-10''"
  by (simp add: stage_key_of_def str_int_def str_nat.simps)

lemma hero_progressed:
  "char_progression c = char_progression hero \<Longrightarrow>
   update_progression c 1 10
     = (Loaded_object
          \<lparr>chapters = Some \<lparr>highest_chapter = Some 2, highest_stage = Some 1,
                             completed_stages =
                               Some [''1-1'', ''1-2'', ''1-3'', ''1-4'', ''1-5'', ''1-6'',
                                     ''1-7'', ''1-8'', ''1-9'', ''1-10'']\<rparr>,
           dungeons = Some \<lparr>unlocked = [], daily_attempts = []\<rparr>\<rparr>,
        \<lparr>highest_chapter = Some 2, highest_stage = Some 1,
         completed_stages =
           Some [''1-1'', ''1-2'', ''1-3'', ''1-4'', ''1-5'', ''1-6'',
                 ''1-7'', ''1-8'', ''1-9'', ''1-10'']\<rparr>)"
  by (simp add: update_progression_def progression_or_default_def current_chapters_def
      update_chapters_def stage_key_1_10 opt_get_def
      STAGES_PER_CHAPTER_def Let_def hero_def)

lemma hero_power:
  "char_stats c = char_stats hero \<Longrightarrow> char_level c = 2 \<Longrightarrow> calculate_power c = 165"
  by (simp add: calculate_power_def dict_get_def hero_def Let_def)

lemma boss_session_fields:
  "session_chapter boss_session = 1" "session_stage boss_session = 10"
  "mob_config boss_session = boss_mobs" "created_at boss_session = 1700000000000000"
  "battle_log boss_request = boss_log" "req_session_token boss_request = ''token-1''"
  by (simp_all add: boss_session_def boss_request_def)

lemma boss_session_live: "\<not> is_expired 1700000100000000 boss_session"
  by (simp add: is_expired_def boss_session_def)

lemma boss_accepted:
  assumes "characters d ''hero'' = Some c" and "char_user_id c = ''user-1''"
    and "battle_sessions d ''token-1'' = Some boss_session"
  shows "complete_stage d 1700000100000000 used_now ''user-1'' ''hero'' boss_request
           = apply_completion d used_now ''hero'' ''token-1'' c boss_session"
  using assms boss_db_rows(4-7) boss_session_live boss_log_accepted
  by (simp add: complete_stage_def get_character_for_user_def select_session_def Let_def
      boss_session_fields)

lemma boss_response_built:
  "build_response \<lparr>gold = 657, gems = 9, xp = 408, items = [boss_drop]\<rparr>
     \<lparr>highest_chapter = Some 2, highest_stage = Some 1,
      completed_stages =
        Some [''1-1'', ''1-2'', ''1-3'', ''1-4'', ''1-5'', ''1-6'',
              ''1-7'', ''1-8'', ''1-9'', ''1-10'']\<rparr> True 2
     = Returned boss_response"
  by (simp add: build_response_def boss_response_def)

lemma boss_completion:
  "apply_completion boss_db 1700000100000001 ''hero'' ''token-1'' hero boss_session
     = Some (Returned boss_response, boss_db_after)"
proof -
  let ?c2 = "hero\<lparr>char_level := 2, char_xp := 408, char_gold := 757, char_gems := 19,
                   free_stat_points := 5\<rparr>"
  have prog: "update_progression ?c2 1 10
     = (Loaded_object
          \<lparr>chapters = Some \<lparr>highest_chapter = Some 2, highest_stage = Some 1,
                             completed_stages =
                               Some [''1-1'', ''1-2'', ''1-3'', ''1-4'', ''1-5'', ''1-6'',
                                     ''1-7'', ''1-8'', ''1-9'', ''1-10'']\<rparr>,
           dungeons = Some \<lparr>unlocked = [], daily_attempts = []\<rparr>\<rparr>,
        \<lparr>highest_chapter = Some 2, highest_stage = Some 1,
         completed_stages =
           Some [''1-1'', ''1-2'', ''1-3'', ''1-4'', ''1-5'', ''1-6'',
                 ''1-7'', ''1-8'', ''1-9'', ''1-10'']\<rparr>)"
    by (rule hero_progressed) simp
  have pw: "calculate_power ?c2 = 165" by (rule hero_power) simp_all
  have row: "hero\<lparr>char_level := 2, char_xp := 408, char_gold := 757, char_gems := 19,
                  free_stat_points := 5, char_power := 165\<rparr> = hero_after"
    by (simp add: hero_after_def hero_def)
  have row2: "hero_after\<lparr>char_inventory := char_inventory hero,
                         char_progression := char_progression hero\<rparr> = hero_after"
    by (simp add: hero_after_def)
  show ?thesis
    by (simp add: apply_completion_def Let_def hero_rewarded[unfolded boss_rewards]
        boss_session_fields prog pw boss_rewards boss_response_built
        boss_db_def boss_db_after_def boss_session_used_def row row2)
qed


lemma bare_completion:
  "apply_completion bare_db 1700000100000001 ''hero'' ''token-1'' bare_hero boss_session
     = Some (Returned boss_response, bare_db_after)"
proof -
  let ?c2 = "bare_hero\<lparr>char_level := 2, char_xp := 408, char_gold := 757, char_gems := 19,
                        free_stat_points := 5\<rparr>"
  have prog: "update_progression ?c2 1 10
     = (Loaded_object
          \<lparr>chapters = Some \<lparr>highest_chapter = Some 2, highest_stage = Some 1,
                             completed_stages =
                               Some [''1-1'', ''1-2'', ''1-3'', ''1-4'', ''1-5'', ''1-6'',
                                     ''1-7'', ''1-8'', ''1-9'', ''1-10'']\<rparr>,
           dungeons = Some \<lparr>unlocked = [], daily_attempts = []\<rparr>\<rparr>,
        \<lparr>highest_chapter = Some 2, highest_stage = Some 1,
         completed_stages =
           Some [''1-1'', ''1-2'', ''1-3'', ''1-4'', ''1-5'', ''1-6'',
                 ''1-7'', ''1-8'', ''1-9'', ''1-10'']\<rparr>)"
    by (rule hero_progressed) (simp add: bare_hero_def)
  have pw: "calculate_power ?c2 = 165" by (rule hero_power) (simp_all add: bare_hero_def)
  have row: "?c2\<lparr>char_power := 165,
                 char_inventory := [(''items'', JList [boss_drop]), (''max_slots'', JInt 50)],
                 char_progression := char_progression bare_hero\<rparr>
             = hero_after\<lparr>char_inventory :=
                            [(''items'', JList [boss_drop]), (''max_slots'', JInt 50)]\<rparr>"
    by (simp add: hero_after_def hero_def bare_hero_def)
  have "apply_completion bare_db 1700000100000001 ''hero'' ''token-1'' bare_hero boss_session
     = Some (Returned boss_response,
             bare_db\<lparr>characters := (characters bare_db)
                        (''hero'' \<mapsto> ?c2\<lparr>char_power := 165,
                            char_inventory :=
                              [(''items'', JList [boss_drop]), (''max_slots'', JInt 50)],
                            char_progression := char_progression bare_hero\<rparr>),
                     battle_sessions := (battle_sessions bare_db)
                        (''token-1'' \<mapsto> boss_session_used)\<rparr>)"
    by (simp add: apply_completion_def Let_def bare_hero_rewarded[unfolded boss_rewards]
        boss_session_fields prog pw boss_rewards boss_response_built boss_session_used_def)
  then show ?thesis
    unfolding row by (simp add: bare_db_def bare_db_after_def)
qed

lemma boss_db_after_rows:
  "characters boss_db_after ''hero'' = Some hero_after" "char_user_id hero_after = ''user-1''"
  "battle_sessions boss_db_after (req_session_token boss_request) = Some boss_session_used"
  "session_character_id boss_session_used = ''hero''" "is_used boss_session_used"
  by (simp_all add: boss_db_after_def hero_after_def hero_def boss_request_def
      boss_session_used_def boss_session_def)

text \<open>
  C1. Completing the boss session twice. The first call answers \<open>success = true\<close> with
  the rewards of the session's snapshot, the dropped item among them, and adds gold, gems
  and experience to the character's row. The item does not reach the row: the inventory
  the commit leaves is the one it found, since the endpoint appends to the loaded
  dictionary in place and assigns the same object back. A character whose stored
  inventory is empty gets a new dictionary, and that one is written with the item. The
  second call with the same token answers \<open>success = false, already_completed = true\<close>
  and leaves the database as the first call left it.
\<close>

theorem boss_completion_twice:
  "complete_stage boss_db 1700000100000000 1700000100000001 ''user-1'' ''hero'' boss_request
     = Some (Returned boss_response, boss_db_after)
   \<and> success boss_response
   \<and> session_rewards boss_session = \<lparr>gold = 657, gems = 9, xp = 408, items = [boss_drop]\<rparr>
   \<and> resp_rewards boss_response
       = Some \<lparr>resp_gold = 657, resp_gems = 9, resp_xp = 408, resp_items = [boss_drop]\<rparr>
   \<and> map_option char_gold (characters boss_db ''hero'') = Some 100
   \<and> map_option char_gold (characters boss_db_after ''hero'') = Some (100 + 657)
   \<and> map_option char_gems (characters boss_db ''hero'') = Some 10
   \<and> map_option char_gems (characters boss_db_after ''hero'') = Some (10 + 9)
   \<and> map_option char_xp (characters boss_db ''hero'') = Some 0
   \<and> map_option char_xp (characters boss_db_after ''hero'') = Some (0 + 408)
   \<and> inventory_in boss_db ''hero'' = Some [(''items'', JList []), (''max_slots'', JInt 50)]
   \<and> inventory_in boss_db_after ''hero''
       = Some [(''items'', JList []), (''max_slots'', JInt 50)]
   \<and> complete_stage bare_db 1700000100000000 1700000100000001 ''user-1'' ''hero'' boss_request
       = Some (Returned boss_response, bare_db_after)
   \<and> inventory_in bare_db ''hero'' = Some []
   \<and> inventory_in bare_db_after ''hero''
       = Some [(''items'', JList [boss_drop]), (''max_slots'', JInt 50)]
   \<and> complete_stage boss_db_after 1700000200000000 1700000200000001 ''user-1'' ''hero''
         boss_request
       = Some (Returned (failure_response True ''Session already used''), boss_db_after)
   \<and> \<not> success (failure_response True ''Session already used'')
   \<and> already_completed (failure_response True ''Session already used'')"
proof -
  have first: "complete_stage boss_db 1700000100000000 1700000100000001 ''user-1'' ''hero''
                 boss_request = Some (Returned boss_response, boss_db_after)"
    using boss_accepted[of boss_db hero 1700000100000001] boss_completion
    by (simp add: boss_db_def hero_def)
  have bare: "complete_stage bare_db 1700000100000000 1700000100000001 ''user-1'' ''hero''
                 boss_request = Some (Returned boss_response, bare_db_after)"
    using boss_accepted[of bare_db bare_hero 1700000100000001] bare_completion
    by (simp add: bare_db_def bare_hero_def hero_def)
  have second: "complete_stage boss_db_after 1700000200000000 1700000200000001 ''user-1''
                  ''hero'' boss_request
       = Some (Returned (failure_response True ''Session already used''), boss_db_after)"
    using boss_db_after_rows by (rule complete_stage_already_used)
  show ?thesis
    using first bare second boss_rewards
    by (simp add: boss_response_def inventory_in_def boss_db_def boss_db_after_def
        bare_db_def bare_db_after_def hero_after_def hero_def bare_hero_def
        failure_response_def)
qed

theorem boss_completion_twice_witness:
  "map_option success
     (map_option (\<lambda>r. boss_response)
        (complete_stage boss_db 1700000100000000 1700000100000001 ''user-1'' ''hero''
           boss_request)) = Some True
   \<and> resp_rewards boss_response
       = Some \<lparr>resp_gold = 657, resp_gems = 9, resp_xp = 408, resp_items = [boss_drop]\<rparr>
   \<and> inventory_in boss_db_after ''hero''
       \<noteq> Some [(''items'', JList [boss_drop]), (''max_slots'', JInt 50)]
   \<and> inventory_in boss_db_after ''hero'' = inventory_in boss_db ''hero''"
  using boss_completion_twice by simp

text \<open>
  C4. An accepted completion of stage 10 of chapter 1 by a character whose progression
  stands at chapter 1, stage 9. The response reports \<open>highest_chapter = 2\<close>,
  \<open>highest_stage = 1\<close> and the key \<open>"1-10"\<close> among the completed stages. The character's
  row after the commit still has chapter 1, stage 9 and no \<open>"1-10"\<close>: the endpoint changes
  the loaded progression dictionary in place and assigns the same object back, so the
  commit writes nothing to the column.
\<close>

theorem boss_completion_progression_lost:
  "complete_stage boss_db 1700000100000000 1700000100000001 ''user-1'' ''hero'' boss_request
     = Some (Returned boss_response, boss_db_after)
   \<and> success boss_response
   \<and> session_chapter boss_session = 1 \<and> session_stage boss_session = 10
   \<and> resp_progression boss_response
       = Some \<lparr>resp_highest_chapter = 2, resp_highest_stage = 1,
               resp_completed_stages =
                 [''1-1'', ''1-2'', ''1-3'', ''1-4'', ''1-5'', ''1-6'', ''1-7'', ''1-8'',
                  ''1-9'', ''1-10'']\<rparr>
   \<and> chapters_in boss_db ''hero''
       = Some \<lparr>highest_chapter = Some 1, highest_stage = Some 9,
               completed_stages =
                 Some [''1-1'', ''1-2'', ''1-3'', ''1-4'', ''1-5'', ''1-6'', ''1-7'', ''1-8'',
                       ''1-9'']\<rparr>
   \<and> chapters_in boss_db_after ''hero''
       = Some \<lparr>highest_chapter = Some 1, highest_stage = Some 9,
               completed_stages =
                 Some [''1-1'', ''1-2'', ''1-3'', ''1-4'', ''1-5'', ''1-6'', ''1-7'', ''1-8'',
                       ''1-9'']\<rparr>"
proof -
  have first: "complete_stage boss_db 1700000100000000 1700000100000001 ''user-1'' ''hero''
                 boss_request = Some (Returned boss_response, boss_db_after)"
    using boss_accepted[of boss_db hero 1700000100000001] boss_completion
    by (simp add: boss_db_def hero_def)
  then show ?thesis
    by (simp add: boss_response_def chapters_in_def boss_db_def boss_db_after_def
        hero_after_def hero_def boss_session_fields)
qed

theorem boss_completion_progression_lost_witness:
  "chapters_in boss_db_after ''hero'' = chapters_in boss_db ''hero''
   \<and> map_option resp_highest_chapter (resp_progression boss_response) = Some 2
   \<and> map_option (\<lambda>cp. opt_get (highest_chapter cp) 1) (chapters_in boss_db_after ''hero'')
       = Some 1"
  using boss_completion_progression_lost by (simp add: opt_get_def)


section \<open>Accepted completions in general\<close>

lemma apply_rewards_scalars:
  assumes "apply_rewards c rw = Some (Inr (c2, inventory, lvl, did))"
  shows "char_user_id c2 = char_user_id c
       \<and> char_gold c2 = char_gold c + gold rw
       \<and> char_gems c2 = char_gems c + gems rw
       \<and> char_xp c2 = char_xp c + xp rw
       \<and> char_inventory c2 = char_inventory c
       \<and> char_progression c2 = char_progression c
       \<and> (char_inventory c \<noteq> [] \<longrightarrow> (\<exists>v. inventory = Loaded_object v))"
proof -
  obtain L where "apply_xp (char_xp c) (char_level c) (xp rw)
                    = Some (char_xp c + xp rw, L, char_level c < L)"
    using apply_xp_returns by blast
  with assms show ?thesis
    by (auto simp: apply_rewards_def Let_def split: sum.splits if_splits)
qed

lemma update_progression_loaded:
  "\<not> (chapters (char_progression c) = None \<and> dungeons (char_progression c) = None)
   \<Longrightarrow> \<exists>v. fst (update_progression c chapter stage) = Loaded_object v"
  by (auto simp: update_progression_def progression_or_default_def Let_def)

text \<open>
  What an accepted completion commits: the session as used, and the character with its
  currency and experience raised by the snapshot's amounts; an inventory that was not
  empty and a progression that was not empty are the stored ones.
\<close>

lemma apply_completion_committed:
  assumes "apply_completion d used_now cid tok c s = Some (Returned r, d1)"
  shows "\<exists>row.
      d1 = d\<lparr>characters := (characters d)(cid \<mapsto> row),
              battle_sessions :=
                (battle_sessions d)(tok \<mapsto> s\<lparr>is_used := True, used_at := Some used_now\<rparr>)\<rparr>
    \<and> char_user_id row = char_user_id c
    \<and> char_gold row = char_gold c + gold (session_rewards s)
    \<and> char_gems row = char_gems c + gems (session_rewards s)
    \<and> char_xp row = char_xp c + xp (session_rewards s)
    \<and> (char_inventory c \<noteq> [] \<longrightarrow> char_inventory row = char_inventory c)
    \<and> (\<not> (chapters (char_progression c) = None \<and> dungeons (char_progression c) = None)
          \<longrightarrow> char_progression row = char_progression c)"
proof (cases "apply_rewards c (session_rewards s)")
  case None
  with assms show ?thesis by (simp add: apply_completion_def)
next
  case (Some res)
  show ?thesis
  proof (cases res)
    case (Inl e)
    with Some assms show ?thesis by (auto simp: apply_completion_def)
  next
    case (Inr t)
    obtain c2 inventory lvl did where t: "t = (c2, inventory, lvl, did)"
      by (cases t) auto
    obtain prog cp where up:
      "update_progression c2 (session_chapter s) (session_stage s) = (prog, cp)"
      by (cases "update_progression c2 (session_chapter s) (session_stage s)") auto
    note sc = apply_rewards_scalars[OF Some[unfolded Inr t]]
    define row where
      "row = c2\<lparr>char_power := calculate_power c2,
                char_inventory := committed_json (char_inventory c) inventory,
                char_progression := committed_json (char_progression c) prog\<rparr>"
    have d1: "d1 = d\<lparr>characters := (characters d)(cid \<mapsto> row),
              battle_sessions :=
                (battle_sessions d)(tok \<mapsto> s\<lparr>is_used := True, used_at := Some used_now\<rparr>)\<rparr>"
      using assms Some Inr t up by (simp add: apply_completion_def Let_def row_def)
    have inv: "char_inventory row = char_inventory c" if "char_inventory c \<noteq> []"
      using sc that by (auto simp: row_def)
    have pr: "char_progression row = char_progression c"
      if "\<not> (chapters (char_progression c) = None \<and> dungeons (char_progression c) = None)"
    proof -
      have "\<not> (chapters (char_progression c2) = None \<and> dungeons (char_progression c2) = None)"
        using sc that by simp
      from update_progression_loaded[OF this, of "session_chapter s" "session_stage s"] up
      show ?thesis by (auto simp: row_def)
    qed
    show ?thesis
      using d1 sc inv pr by (intro exI[of _ row]) (simp add: row_def)
  qed
qed

text \<open>
  After an accepted completion every call with the same token is answered
  \<open>success = false, already_completed = true\<close> and changes nothing.
\<close>

lemma completed_session_replay:
  assumes "complete_stage d now used_now user cid request = Some (Returned r, d1)"
    and "success r"
    and "req_session_token request2 = req_session_token request"
  shows "complete_stage d1 now2 used_now2 user cid request2
           = Some (Returned (failure_response True ''Session already used''), d1)"
proof -
  obtain c s where cs: "characters d cid = Some c" "char_user_id c = user"
     "battle_sessions d (req_session_token request) = Some s" "session_character_id s = cid"
     and run: "apply_completion d used_now cid (req_session_token request) c s
                 = Some (Returned r, d1)"
    using assms(1,2)
    by (auto simp: complete_stage_def get_character_for_user_def select_session_def Let_def
          failure_response_def
        split: sum.splits option.splits if_splits prod.splits)
  from apply_completion_committed[OF run]
  obtain row where d1: "d1 = d\<lparr>characters := (characters d)(cid \<mapsto> row),
              battle_sessions :=
                (battle_sessions d)(req_session_token request
                   \<mapsto> s\<lparr>is_used := True, used_at := Some used_now\<rparr>)\<rparr>"
    and row: "char_user_id row = char_user_id c"
    by blast
  have "characters d1 cid = Some row" "char_user_id row = user"
    "battle_sessions d1 (req_session_token request2)
       = Some (s\<lparr>is_used := True, used_at := Some used_now\<rparr>)"
    "session_character_id (s\<lparr>is_used := True, used_at := Some used_now\<rparr>) = cid"
    "is_used (s\<lparr>is_used := True, used_at := Some used_now\<rparr>)"
    using d1 row cs assms(3) by simp_all
  then show ?thesis by (rule complete_stage_already_used)
qed

text \<open>
  What step 9 computes on the \<open>chapters\<close> dictionary it holds, and the response reports:
  the boss of the current chapter opens the next one, an earlier chapter changes nothing,
  and the position never moves backward.
\<close>

lemma update_chapters_boss:
  assumes "chapter = opt_get (highest_chapter cp) 1" and "opt_get (highest_stage cp) 1 \<le> 10"
  shows "highest_chapter (update_chapters chapter 10 cp) = Some (chapter + 1)
       \<and> highest_stage (update_chapters chapter 10 cp) = Some 1"
  using assms by (simp add: update_chapters_def Let_def STAGES_PER_CHAPTER_def)

lemma update_chapters_forward:
  "opt_get (highest_chapter cp) 1 \<le> opt_get (highest_chapter (update_chapters chapter stage cp)) 1
   \<and> (opt_get (highest_chapter (update_chapters chapter stage cp)) 1 = opt_get (highest_chapter cp) 1
        \<longrightarrow> opt_get (highest_stage cp) 1
              \<le> opt_get (highest_stage (update_chapters chapter stage cp)) 1)"
  by (simp add: update_chapters_def Let_def opt_get_def)

lemma update_chapters_earlier_chapter:
  "chapter < opt_get (highest_chapter cp) 1
   \<Longrightarrow> highest_chapter (update_chapters chapter stage cp) = highest_chapter cp
     \<and> highest_stage (update_chapters chapter stage cp) = highest_stage cp"
  by (simp add: update_chapters_def Let_def)

lemma update_chapters_completed:
  "completed_stages (update_chapters chapter stage cp)
     = Some (if stage_key_of chapter stage \<in> set (opt_get (completed_stages cp) [])
             then opt_get (completed_stages cp) []
             else opt_get (completed_stages cp) [] @ [stage_key_of chapter stage])"
  by (cases "completed_stages cp") (simp_all add: update_chapters_def Let_def opt_get_def)


end
